theory Spec2Isabelle
  imports Main "HOL-Library.Word" "HOL-Library.Sublist"
begin

section \<open>Data model\<close>

text \<open>
  The development embeds \<^verbatim>\<open>Source/Core/VideoCommon/GeometryShaderGen.cpp\<close>.
  Unsigned machine integers (\<^verbatim>\<open>u32\<close>, \<^verbatim>\<open>unsigned\<close>) are 32-bit words, so
  \<open>+\<close> and \<open>*\<close> wrap as in the source.
\<close>

type_synonym u32 = "32 word"

abbreviation TAB :: char where
  "TAB \<equiv> CHR 0x09"

text \<open>
  Modelled from the spec: the enumerations \<^verbatim>\<open>APIType\<close> and \<^verbatim>\<open>PrimitiveType\<close> are
  declared in headers that are not part of the sources. The spec lists the primitive types
  as Points, Lines, Triangles, TriangleStrip; the numeric codes 0..3 are the indices the
  source uses into \<^verbatim>\<open>primitives_ogl\<close> and \<^verbatim>\<open>primitives_d3d\<close>. The source
  tests the API for OpenGL and Vulkan only; \<open>D3D\<close> stands for its remaining case.
\<close>

datatype APIType = OpenGL | D3D | Vulkan

datatype PrimitiveType = Points | Lines | Triangles | TriangleStrip

fun prim_code :: "PrimitiveType \<Rightarrow> u32" where
  "prim_code Points = 0"
| "prim_code Lines = 1"
| "prim_code Triangles = 2"
| "prim_code TriangleStrip = 3"

text \<open>
  Modelled from the spec: \<^verbatim>\<open>geometry_shader_uid_data\<close> (GeometryShaderGen.h) is a
  zero-filled plain-data record with two bit-fields, the primitive type and the number of
  texture generators. A value of the record below stands for the bit pattern of a
  zero-filled UID with these two fields set.
\<close>

record geometry_shader_uid_data =
  numTexGens :: u32
  primitive_type :: PrimitiveType

text \<open>
  Modelled from the spec: \<^verbatim>\<open>ShaderHostConfig\<close> is declared in a header that is not
  part of the sources; the record holds the fields the generator reads.
\<close>

record ShaderHostConfig =
  msaa :: bool
  ssaa :: bool
  stereo :: bool
  wireframe :: bool
  vr :: bool
  more_layers :: u32
  backend_gs_instancing :: bool
  backend_depth_clamp :: bool

text \<open>
  The process-global state the functions read: the fields of \<^verbatim>\<open>g_ActiveConfig\<close> that
  occur in the source, and the answer of
  \<^verbatim>\<open>DriverDetails::HasBug(DriverDetails::BUG_BROKEN_CLIP_DISTANCE)\<close>.
\<close>

record VideoConfig =
  iStereoMode :: int
  bWireFrame :: bool
  bEnablePixelLighting :: bool
  bSupportsPrimitiveRestart :: bool
  bSupportsBindingLayout :: bool

record ambient =
  g_ActiveConfig :: VideoConfig
  BUG_BROKEN_CLIP_DISTANCE :: bool

text \<open>
  The helpers, constants and macros of other translation units that the generator calls
  are parameters of the model. A helper that writes into the buffer is given by the list
  of chunks it writes. An omitted trailing argument of \<^verbatim>\<open>DefineOutputMember\<close> is
  \<open>None\<close>.
\<close>

record emitters =
  s_lighting_struct :: string
  I_STEREOPARAMS :: string
  I_LINEPTPARAMS :: string
  I_TEXOFFSET :: string
  GenerateVSOutputMembers :: "APIType \<Rightarrow> u32 \<Rightarrow> bool \<Rightarrow> string \<Rightarrow> string list"
  AssignVSOutputMembers :: "string \<Rightarrow> string \<Rightarrow> u32 \<Rightarrow> bool \<Rightarrow> string list"
  GetInterpolationQualifier :: "bool \<Rightarrow> bool \<Rightarrow> bool \<Rightarrow> bool \<Rightarrow> string"
  DefineOutputMember ::
    "APIType \<Rightarrow> string \<Rightarrow> string \<Rightarrow> string \<Rightarrow> int \<Rightarrow> string \<Rightarrow> int option
       \<Rightarrow> string list"

section \<open>The shader source buffer\<close>

text \<open>
  Modelled from the spec: \<^verbatim>\<open>ShaderCode\<close> is an append-only text builder with
  printf-style formatted writes. The buffer is the sequence of the chunks written so far,
  one per \<^verbatim>\<open>out.Write\<close> call, and its text is their concatenation. A run of
  \<^verbatim>\<open>Write\<close> calls is the list of the formatted strings; a conditional write is a list
  that is empty when the condition fails.
\<close>

type_synonym ShaderCode = "string list"

definition GetBuffer :: "ShaderCode \<Rightarrow> string" where
  "GetBuffer out = concat out"

definition digit :: "nat \<Rightarrow> char" where
  "digit d = ''0123456789'' ! d"

fun string_of_nat :: "nat \<Rightarrow> string" where
  "string_of_nat n =
     (if n < 10 then [digit n] else string_of_nat (n div 10) @ [digit (n mod 10)])"

declare string_of_nat.simps [simp del]

text \<open>
  The conversion \<^verbatim>\<open>%d\<close>: the 32 bits of the argument are printed as a signed decimal
  number, also where the argument is unsigned.
\<close>

definition fmt_d :: "u32 \<Rightarrow> string" where
  "fmt_d w =
     (if sint w < 0 then CHR ''-'' # string_of_nat (nat (- sint w))
      else string_of_nat (nat (sint w)))"

section \<open>Geometry shader generation\<close>

definition primitives_ogl :: "string list" where
  "primitives_ogl = [''points'', ''lines'', ''triangles'', ''triangles'']"

definition primitives_d3d :: "string list" where
  "primitives_d3d = [''point'', ''line'', ''triangle'', ''triangle'']"

definition IsPassthrough :: "ambient \<Rightarrow> geometry_shader_uid_data \<Rightarrow> bool" where
  "IsPassthrough g uid =
     (prim_code Triangles \<le> prim_code (primitive_type uid)
      \<and> \<not> (iStereoMode (g_ActiveConfig g) > 0)
      \<and> \<not> bWireFrame (g_ActiveConfig g))"

text \<open>The locals of the generator that size the declarations.\<close>

definition vertex_in :: "PrimitiveType \<Rightarrow> u32" where
  "vertex_in p = min (prim_code p + 1) 3"

definition vertex_out :: "PrimitiveType \<Rightarrow> bool \<Rightarrow> u32" where
  "vertex_out p wire =
     (if wire then (if p = TriangleStrip then 3 else 4) + 1
      else (if p = TriangleStrip then 3 else 4))"

definition layers :: "ShaderHostConfig \<Rightarrow> u32" where
  "layers hc = more_layers hc * 2 + (if stereo hc then 1 else 0) + 1"

definition multi_layer :: "ShaderHostConfig \<Rightarrow> bool" where
  "multi_layer hc = (stereo hc \<or> more_layers hc \<noteq> 0)"

definition flip_line :: string where
  "flip_line = TAB # ''gl_Position.y = -gl_Position.y;\<newline>''"

definition EmitVertex ::
  "emitters \<Rightarrow> ShaderHostConfig \<Rightarrow> geometry_shader_uid_data \<Rightarrow> string \<Rightarrow> APIType
     \<Rightarrow> bool \<Rightarrow> bool \<Rightarrow> bool \<Rightarrow> ShaderCode" where
  "EmitVertex e hc uid vertex api wire pl first_vertex =
     (if wire \<and> first_vertex
      then [TAB # ''if (i == 0) first = '' @ vertex @ '';\<newline>''] else [])
     @ (if api = OpenGL then
          [TAB # ''gl_Position = '' @ vertex @ ''.pos;\<newline>'']
          @ (if backend_depth_clamp hc then
               [TAB # ''gl_ClipDistance[0] = '' @ vertex @ ''.clipDist0;\<newline>'',
                TAB # ''gl_ClipDistance[1] = '' @ vertex @ ''.clipDist1;\<newline>'']
             else [])
          @ AssignVSOutputMembers e ''ps'' vertex (numTexGens uid) pl
        else if api = Vulkan then
          [TAB # ''gl_Position = '' @ vertex @ ''.pos;\<newline>'',
           flip_line]
          @ AssignVSOutputMembers e ''ps'' vertex (numTexGens uid) pl
        else
          [TAB # ''ps.o = '' @ vertex @ '';\<newline>''])
     @ (if api = OpenGL \<or> api = Vulkan then [TAB # ''EmitVertex();\<newline>'']
        else [TAB # ''output.Append(ps);\<newline>''])"

definition EndPrimitive ::
  "emitters \<Rightarrow> ShaderHostConfig \<Rightarrow> geometry_shader_uid_data \<Rightarrow> APIType
     \<Rightarrow> bool \<Rightarrow> bool \<Rightarrow> ShaderCode" where
  "EndPrimitive e hc uid api wire pl =
     (if wire then EmitVertex e hc uid ''first'' api wire pl False else [])
     @ (if api = OpenGL \<or> api = Vulkan then [TAB # ''EndPrimitive();\<newline>'']
        else [TAB # ''output.RestartStrip();\<newline>''])"

text \<open>
  The body of \<^verbatim>\<open>GenerateGeometryShaderCode\<close>, block by block in source order.
  First the layout parameters (OpenGL and Vulkan only).
\<close>

definition gs_layout_parameters ::
  "APIType \<Rightarrow> ShaderHostConfig \<Rightarrow> geometry_shader_uid_data \<Rightarrow> ShaderCode" where
  "gs_layout_parameters api hc uid =
     (if api = OpenGL \<or> api = Vulkan then
        (if backend_gs_instancing hc then
           [''layout('' @ primitives_ogl ! unat (prim_code (primitive_type uid))
              @ '', invocations = '' @ fmt_d (layers hc) @ '') in;\<newline>'',
            ''layout('' @ (if wireframe hc then ''line'' else ''triangle'')
              @ ''_strip, max_vertices = ''
              @ fmt_d (vertex_out (primitive_type uid) (wireframe hc)) @ '') out;\<newline>'']
         else
           [''layout('' @ primitives_ogl ! unat (prim_code (primitive_type uid))
              @ '') in;\<newline>'',
            ''layout('' @ (if wireframe hc then ''line'' else ''triangle'')
              @ ''_strip, max_vertices = ''
              @ fmt_d (vertex_out (primitive_type uid) (wireframe hc) * layers hc)
              @ '') out;\<newline>''])
      else [])"

text \<open>The lighting structure, the uniform block and the \<^verbatim>\<open>VS_OUTPUT\<close> structure.\<close>

definition gs_uniforms ::
  "emitters \<Rightarrow> ambient \<Rightarrow> APIType \<Rightarrow> geometry_shader_uid_data \<Rightarrow> ShaderCode" where
  "gs_uniforms e g api uid =
     [s_lighting_struct e]
     @ (if api = OpenGL \<or> api = Vulkan
        then [''UBO_BINDING(std140, 3) uniform GSBlock {\<newline>'']
        else [''cbuffer GSBlock {\<newline>''])
     @ [TAB # ''float4 '' @ I_STEREOPARAMS e @ '';\<newline>''
          @ TAB # ''float4 '' @ I_LINEPTPARAMS e @ '';\<newline>''
          @ TAB # ''int4 '' @ I_TEXOFFSET e @ '';\<newline>''
          @ ''};\<newline>'']
     @ [''struct VS_OUTPUT {\<newline>'']
     @ GenerateVSOutputMembers e api (numTexGens uid)
         (bEnablePixelLighting (g_ActiveConfig g)) []
     @ [''};\<newline>'']"

text \<open>The stage interface: input and output blocks, and the head of \<^verbatim>\<open>main\<close>.\<close>

definition gs_interface ::
  "emitters \<Rightarrow> ambient \<Rightarrow> APIType \<Rightarrow> ShaderHostConfig \<Rightarrow> geometry_shader_uid_data
     \<Rightarrow> ShaderCode" where
  "gs_interface e g api hc uid =
     (if api = OpenGL \<or> api = Vulkan then
        (if backend_gs_instancing hc
         then [''#define InstanceID gl_InvocationID\<newline>''] else [])
        @ [''VARYING_LOCATION(0) in VertexData {\<newline>'']
        @ GenerateVSOutputMembers e api (numTexGens uid)
            (bEnablePixelLighting (g_ActiveConfig g))
            (GetInterpolationQualifier e (msaa hc) (ssaa hc) True True)
        @ [''} vs['' @ fmt_d (vertex_in (primitive_type uid)) @ ''];\<newline>'']
        @ [''VARYING_LOCATION(0) out VertexData {\<newline>'']
        @ GenerateVSOutputMembers e api (numTexGens uid)
            (bEnablePixelLighting (g_ActiveConfig g))
            (GetInterpolationQualifier e (msaa hc) (ssaa hc) True False)
        @ (if multi_layer hc then [TAB # ''flat int layer;\<newline>''] else [])
        @ [''} ps;\<newline>'']
        @ [''void main()\<newline>{\<newline>'']
      else
        [''struct VertexData {\<newline>'']
        @ [TAB # ''VS_OUTPUT o;\<newline>'']
        @ (if multi_layer hc
           then [TAB # ''uint layer : SV_RenderTargetArrayIndex;\<newline>''] else [])
        @ [''};\<newline>'']
        @ (if backend_gs_instancing hc then
             [''[maxvertexcount('' @ fmt_d (vertex_out (primitive_type uid) (wireframe hc))
                @ '')]\<newline>[instance('' @ fmt_d (layers hc) @ '')]\<newline>'',
              ''void main('' @ primitives_d3d ! unat (prim_code (primitive_type uid))
                @ '' VS_OUTPUT o['' @ fmt_d (vertex_in (primitive_type uid))
                @ ''], inout '' @ (if wireframe hc then ''Line'' else ''Triangle'')
                @ ''Stream<VertexData> output, in uint InstanceID : SV_GSInstanceID)\<newline>{\<newline>'']
           else
             [''[maxvertexcount(''
                @ fmt_d (vertex_out (primitive_type uid) (wireframe hc) * layers hc)
                @ '')]\<newline>'',
              ''void main('' @ primitives_d3d ! unat (prim_code (primitive_type uid))
                @ '' VS_OUTPUT o['' @ fmt_d (vertex_in (primitive_type uid))
                @ ''], inout '' @ (if wireframe hc then ''Line'' else ''Triangle'')
                @ ''Stream<VertexData> output)\<newline>{\<newline>''])
        @ [TAB # ''VertexData ps;\<newline>''])"

text \<open>
  The chunk that chooses the axis of the line offset. It is the same literal in the
  general generator and in the avatar variant, except for the line computing \<^verbatim>\<open>to\<close>.
\<close>

definition line_offset_chunk :: "emitters \<Rightarrow> string \<Rightarrow> string" where
  "line_offset_chunk e to_line =
     TAB # ''float2 offset;\<newline>''
     @ to_line
     @ TAB # ''if ('' @ I_LINEPTPARAMS e @ ''.y * to.y > '' @ I_LINEPTPARAMS e
         @ ''.x * to.x) {\<newline>''
     @ TAB # TAB # ''offset = float2('' @ I_LINEPTPARAMS e @ ''.z / '' @ I_LINEPTPARAMS e
         @ ''.x, 0);\<newline>''
     @ TAB # ''} else {\<newline>''
     @ TAB # TAB # ''offset = float2(0, -'' @ I_LINEPTPARAMS e @ ''.z / '' @ I_LINEPTPARAMS e
         @ ''.y);\<newline>''
     @ TAB # ''}\<newline>''"

definition point_offset_chunk :: "emitters \<Rightarrow> string" where
  "point_offset_chunk e =
     TAB # ''float2 offset = float2('' @ I_LINEPTPARAMS e @ ''.w / '' @ I_LINEPTPARAMS e
       @ ''.x, -'' @ I_LINEPTPARAMS e @ ''.w / '' @ I_LINEPTPARAMS e
       @ ''.y) * center.pos.w;\<newline>''"

text \<open>The set-up that depends on the primitive type.\<close>

definition gs_primitive_setup ::
  "emitters \<Rightarrow> ambient \<Rightarrow> APIType \<Rightarrow> geometry_shader_uid_data \<Rightarrow> ShaderCode" where
  "gs_primitive_setup e g api uid =
     (if primitive_type uid = Lines then
        (if api = OpenGL \<or> api = Vulkan then
           [TAB # ''VS_OUTPUT start, end;\<newline>'']
           @ AssignVSOutputMembers e ''start'' ''vs[0]'' (numTexGens uid)
               (bEnablePixelLighting (g_ActiveConfig g))
           @ AssignVSOutputMembers e ''end'' ''vs[1]'' (numTexGens uid)
               (bEnablePixelLighting (g_ActiveConfig g))
         else
           [TAB # ''VS_OUTPUT start = o[0];\<newline>'',
            TAB # ''VS_OUTPUT end = o[1];\<newline>''])
        @ [line_offset_chunk e
             (TAB # ''float2 to = abs(end.pos.xy / end.pos.w - start.pos.xy / start.pos.w);\<newline>'')]
      else if primitive_type uid = Points then
        (if api = OpenGL \<or> api = Vulkan then
           [TAB # ''VS_OUTPUT center;\<newline>'']
           @ AssignVSOutputMembers e ''center'' ''vs[0]'' (numTexGens uid)
               (bEnablePixelLighting (g_ActiveConfig g))
         else
           [TAB # ''VS_OUTPUT center = o[0];\<newline>''])
        @ [point_offset_chunk e]
      else [])"

text \<open>
  Layer selection: the invocation identifier with instancing, a software loop over the
  layers without.
\<close>

definition eye_binding :: string where
  "eye_binding = TAB # ''int eye = InstanceID;\<newline>''"

definition eye_loop :: "u32 \<Rightarrow> string" where
  "eye_loop n = TAB # ''for (int eye = 0; eye < '' @ fmt_d n @ ''; ++eye) {\<newline>''"

definition gs_layer_select :: "ShaderHostConfig \<Rightarrow> ShaderCode" where
  "gs_layer_select hc =
     (if multi_layer hc then
        (if backend_gs_instancing hc then [eye_binding] else [eye_loop (layers hc)])
      else [])"

text \<open>The head of the loop over the input vertices.\<close>

definition vertex_loop :: "PrimitiveType \<Rightarrow> string" where
  "vertex_loop p = TAB # ''for (int i = 0; i < '' @ fmt_d (vertex_in p) @ ''; ++i) {\<newline>''"

definition gs_vertex_loop_head ::
  "emitters \<Rightarrow> ambient \<Rightarrow> APIType \<Rightarrow> ShaderHostConfig \<Rightarrow> geometry_shader_uid_data
     \<Rightarrow> ShaderCode" where
  "gs_vertex_loop_head e g api hc uid =
     (if wireframe hc then [TAB # ''VS_OUTPUT first;\<newline>''] else [])
     @ [vertex_loop (primitive_type uid)]
     @ (if api = OpenGL \<or> api = Vulkan then
          [TAB # ''VS_OUTPUT f;\<newline>'']
          @ AssignVSOutputMembers e ''f'' ''vs[i]'' (numTexGens uid)
              (bEnablePixelLighting (g_ActiveConfig g))
          @ (if backend_depth_clamp hc \<and> BUG_BROKEN_CLIP_DISTANCE g then
               [TAB # ''f.clipDist0 = gl_in[i].gl_ClipDistance[0];\<newline>'',
                TAB # ''f.clipDist1 = gl_in[i].gl_ClipDistance[1];\<newline>'']
             else [])
        else [TAB # ''VS_OUTPUT f = o[i];\<newline>''])"

text \<open>The output layer and the horizontal offset of the eye.\<close>

definition gs_layer_offset :: "emitters \<Rightarrow> APIType \<Rightarrow> ShaderHostConfig \<Rightarrow> ShaderCode" where
  "gs_layer_offset e api hc =
     (if vr hc then
        [TAB # ''ps.layer = eye;\<newline>'']
        @ (if api = OpenGL then [TAB # ''gl_Layer = eye;\<newline>''] else [])
        @ [TAB # ''f.clipPos.x += '' @ I_STEREOPARAMS e @ ''[eye] - '' @ I_STEREOPARAMS e
             @ ''[eye+2] * f.clipPos.w;\<newline>'',
           TAB # ''f.pos.x += '' @ I_STEREOPARAMS e @ ''[eye] - '' @ I_STEREOPARAMS e
             @ ''[eye+2] * f.pos.w;\<newline>'']
      else if multi_layer hc then
        [TAB # ''ps.layer = eye;\<newline>'']
        @ (if api = OpenGL \<or> api = Vulkan then [TAB # ''gl_Layer = eye;\<newline>''] else [])
        @ [TAB # ''float hoffset = (eye == 0) ? '' @ I_STEREOPARAMS e @ ''.x : ''
             @ I_STEREOPARAMS e @ ''.y;\<newline>'',
           TAB # ''f.pos.x += hoffset * (f.pos.w - '' @ I_STEREOPARAMS e @ ''.z);\<newline>'']
      else [])"

text \<open>
  The two loops over the texture generators: \<^verbatim>\<open>i\<close> runs from 0 while
  \<^verbatim>\<open>i < numTexGens\<close>.
\<close>

definition line_texgen_nudges :: "emitters \<Rightarrow> u32 \<Rightarrow> ShaderCode" where
  "line_texgen_nudges e n =
     concat (map (\<lambda>i.
       [TAB # ''if ((('' @ I_TEXOFFSET e @ ''[0] >> '' @ fmt_d (word_of_nat i)
          @ '') & 0x1) != 0)\<newline>'',
        TAB # TAB # ''r.tex'' @ fmt_d (word_of_nat i) @ ''.x += texOffset;\<newline>''])
       [0..<unat n])"

definition point_texgen_nudges :: "emitters \<Rightarrow> u32 \<Rightarrow> ShaderCode" where
  "point_texgen_nudges e n =
     concat (map (\<lambda>i.
       [TAB # ''if ((('' @ I_TEXOFFSET e @ ''[1] >> '' @ fmt_d (word_of_nat i)
          @ '') & 0x1) != 0) {\<newline>'',
        TAB # TAB # ''ul.tex'' @ fmt_d (word_of_nat i)
          @ ''.xy += float2(0,1) * texOffset;\<newline>'',
        TAB # TAB # ''ur.tex'' @ fmt_d (word_of_nat i) @ ''.xy += texOffset;\<newline>'',
        TAB # TAB # ''lr.tex'' @ fmt_d (word_of_nat i)
          @ ''.xy += float2(1,0) * texOffset;\<newline>'',
        TAB # ''}\<newline>''])
       [0..<unat n])"

text \<open>The expansion of one input vertex, by primitive type.\<close>

definition gs_expand ::
  "emitters \<Rightarrow> ambient \<Rightarrow> APIType \<Rightarrow> ShaderHostConfig \<Rightarrow> geometry_shader_uid_data
     \<Rightarrow> ShaderCode" where
  "gs_expand e g api hc uid =
     (if primitive_type uid = Lines then
        [TAB # ''VS_OUTPUT l = f;\<newline>'' @ TAB # ''VS_OUTPUT r = f;\<newline>'',
         TAB # ''l.pos.xy -= offset * l.pos.w;\<newline>''
           @ TAB # ''r.pos.xy += offset * r.pos.w;\<newline>'',
         TAB # ''if ('' @ I_TEXOFFSET e @ ''[2] != 0) {\<newline>'',
         TAB # ''float texOffset = 1.0 / float('' @ I_TEXOFFSET e @ ''[2]);\<newline>'']
        @ line_texgen_nudges e (numTexGens uid)
        @ [TAB # ''}\<newline>'']
        @ EmitVertex e hc uid ''l'' api (wireframe hc)
            (bEnablePixelLighting (g_ActiveConfig g)) True
        @ EmitVertex e hc uid ''r'' api (wireframe hc)
            (bEnablePixelLighting (g_ActiveConfig g)) False
      else if primitive_type uid = Points then
        [TAB # ''VS_OUTPUT ll = f;\<newline>'' @ TAB # ''VS_OUTPUT lr = f;\<newline>''
           @ TAB # ''VS_OUTPUT ul = f;\<newline>'' @ TAB # ''VS_OUTPUT ur = f;\<newline>'',
         TAB # ''ll.pos.xy += float2(-1,-1) * offset;\<newline>''
           @ TAB # ''lr.pos.xy += float2(1,-1) * offset;\<newline>''
           @ TAB # ''ul.pos.xy += float2(-1,1) * offset;\<newline>''
           @ TAB # ''ur.pos.xy += offset;\<newline>'',
         TAB # ''if ('' @ I_TEXOFFSET e @ ''[3] != 0) {\<newline>'',
         TAB # ''float2 texOffset = float2(1.0 / float('' @ I_TEXOFFSET e
           @ ''[3]), 1.0 / float('' @ I_TEXOFFSET e @ ''[3]));\<newline>'']
        @ point_texgen_nudges e (numTexGens uid)
        @ [TAB # ''}\<newline>'']
        @ EmitVertex e hc uid ''ll'' api (wireframe hc)
            (bEnablePixelLighting (g_ActiveConfig g)) True
        @ EmitVertex e hc uid ''lr'' api (wireframe hc)
            (bEnablePixelLighting (g_ActiveConfig g)) False
        @ EmitVertex e hc uid ''ul'' api (wireframe hc)
            (bEnablePixelLighting (g_ActiveConfig g)) False
        @ EmitVertex e hc uid ''ur'' api (wireframe hc)
            (bEnablePixelLighting (g_ActiveConfig g)) False
      else
        EmitVertex e hc uid ''f'' api (wireframe hc)
          (bEnablePixelLighting (g_ActiveConfig g)) True)"

text \<open>The end of the vertex loop, the end of the primitive and the closing braces.\<close>

definition gs_tail ::
  "emitters \<Rightarrow> ambient \<Rightarrow> APIType \<Rightarrow> ShaderHostConfig \<Rightarrow> geometry_shader_uid_data
     \<Rightarrow> ShaderCode" where
  "gs_tail e g api hc uid =
     [TAB # ''}\<newline>'']
     @ EndPrimitive e hc uid api (wireframe hc) (bEnablePixelLighting (g_ActiveConfig g))
     @ (if multi_layer hc \<and> \<not> backend_gs_instancing hc then [TAB # ''}\<newline>''] else [])
     @ [''}\<newline>'']"

definition GenerateGeometryShaderCode ::
  "emitters \<Rightarrow> ambient \<Rightarrow> APIType \<Rightarrow> ShaderHostConfig \<Rightarrow> geometry_shader_uid_data
     \<Rightarrow> ShaderCode" where
  "GenerateGeometryShaderCode e g api hc uid =
     gs_layout_parameters api hc uid
     @ gs_uniforms e g api uid
     @ gs_interface e g api hc uid
     @ gs_primitive_setup e g api uid
     @ gs_layer_select hc
     @ gs_vertex_loop_head e g api hc uid
     @ gs_layer_offset e api hc
     @ gs_expand e g api hc uid
     @ gs_tail e g api hc uid"

section \<open>Enumeration of the UIDs\<close>

text \<open>
  The callback is a state transformer: \<open>callback uid s\<close> is the state after the call.
  The UID is one object that the loops update in place, so it is threaded through them.
\<close>

definition primitive_lut :: "ambient \<Rightarrow> PrimitiveType list" where
  "primitive_lut g =
     [if bSupportsPrimitiveRestart (g_ActiveConfig g) then TriangleStrip else Triangles,
      Lines, Points]"

function texgens_loop ::
  "(geometry_shader_uid_data \<Rightarrow> 's \<Rightarrow> 's) \<Rightarrow> u32 \<Rightarrow> geometry_shader_uid_data \<times> 's
     \<Rightarrow> geometry_shader_uid_data \<times> 's" where
  "texgens_loop callback texgens (uid, s) =
     (if texgens \<le> 8 then
        texgens_loop callback (texgens + 1)
          (uid\<lparr>numTexGens := texgens\<rparr>, callback (uid\<lparr>numTexGens := texgens\<rparr>) s)
      else (uid, s))"
  by pat_completeness auto
termination
proof (relation "measure (\<lambda>(callback, texgens, p). 9 - unat texgens)")
  show "wf (measure (\<lambda>(callback :: geometry_shader_uid_data \<Rightarrow> 's \<Rightarrow> 's, texgens :: u32,
      p :: geometry_shader_uid_data \<times> 's). 9 - unat texgens))"
    by simp
next
  fix callback :: "geometry_shader_uid_data \<Rightarrow> 's \<Rightarrow> 's"
    and texgens :: u32 and uid :: geometry_shader_uid_data and s :: 's
  assume le: "texgens \<le> 8"
  then have "unat texgens \<le> 8"
    by (simp add: word_le_nat_alt)
  moreover from this have "unat (texgens + 1) = unat texgens + 1"
    by (simp add: unat_word_ariths)
  ultimately show "((callback, texgens + 1, uid\<lparr>numTexGens := texgens\<rparr>,
      callback (uid\<lparr>numTexGens := texgens\<rparr>) s), callback, texgens, uid, s)
      \<in> measure (\<lambda>(callback, texgens, p). 9 - unat texgens)"
    by simp
qed

declare texgens_loop.simps [simp del]

definition EnumerateGeometryShaderUids ::
  "ambient \<Rightarrow> (geometry_shader_uid_data \<Rightarrow> 's \<Rightarrow> 's) \<Rightarrow> 's \<Rightarrow> 's" where
  "EnumerateGeometryShaderUids g callback s =
     snd (fold (\<lambda>primitive (uid, s).
                  texgens_loop callback 0 (uid\<lparr>primitive_type := primitive\<rparr>, s))
            (primitive_lut g)
            (\<lparr>numTexGens = 0, primitive_type = Points\<rparr>, s))"

text \<open>The callback that records the UIDs it is given, in order.\<close>

definition record_uid ::
  "geometry_shader_uid_data \<Rightarrow> geometry_shader_uid_data list \<Rightarrow> geometry_shader_uid_data list" where
  "record_uid uid seen = seen @ [uid]"

section \<open>The avatar variant\<close>

text \<open>
  \<^verbatim>\<open>GenerateAvatarGeometryShader\<close> at the instance \<^verbatim>\<open>T = ShaderCode\<close>. Its UID
  data hold the primitive type and one texture generator; \<^verbatim>\<open>EmitVertex\<close> and
  \<^verbatim>\<open>EndPrimitive\<close> read them.
\<close>

definition avatar_uid_data :: "PrimitiveType \<Rightarrow> geometry_shader_uid_data" where
  "avatar_uid_data p = \<lparr>numTexGens = 1, primitive_type = p\<rparr>"

definition avatar_members :: "emitters \<Rightarrow> APIType \<Rightarrow> string \<Rightarrow> ShaderCode" where
  "avatar_members e api qualifier =
     DefineOutputMember e api qualifier ''float4'' ''pos'' (- 1) ''POSITION'' None
     @ DefineOutputMember e api qualifier ''float4'' ''colors_'' 0 ''COLOR'' (Some 0)
     @ DefineOutputMember e api qualifier ''float3'' ''tex'' 0 ''TEXCOORD'' (Some 0)"

definition avatar_assign :: "string \<Rightarrow> string \<Rightarrow> ShaderCode" where
  "avatar_assign a b =
     [TAB # a @ ''.pos = '' @ b @ ''.pos;\<newline>'',
      TAB # a @ ''.colors_0 = '' @ b @ ''.colors_0;\<newline>'',
      TAB # a @ ''.tex'' @ fmt_d 0 @ '' = '' @ b @ ''.tex'' @ fmt_d 0 @ '';\<newline>'']"

definition av_layout_parameters ::
  "PrimitiveType \<Rightarrow> APIType \<Rightarrow> ShaderHostConfig \<Rightarrow> ShaderCode" where
  "av_layout_parameters p api hc =
     (if api = OpenGL then
        (if backend_gs_instancing hc then
           [''layout('' @ primitives_ogl ! unat (prim_code p)
              @ '', invocations = '' @ fmt_d (layers hc) @ '') in;\<newline>'',
            ''layout('' @ (if wireframe hc then ''line'' else ''triangle'')
              @ ''_strip, max_vertices = ''
              @ fmt_d (vertex_out p (wireframe hc)) @ '') out;\<newline>'']
         else
           [''layout('' @ primitives_ogl ! unat (prim_code p) @ '') in;\<newline>'',
            ''layout('' @ (if wireframe hc then ''line'' else ''triangle'')
              @ ''_strip, max_vertices = ''
              @ fmt_d (vertex_out p (wireframe hc) * layers hc) @ '') out;\<newline>''])
      else [])"

definition av_uniforms :: "emitters \<Rightarrow> ambient \<Rightarrow> APIType \<Rightarrow> ShaderCode" where
  "av_uniforms e g api =
     (if api = OpenGL then
        [''layout(std140''
           @ (if bSupportsBindingLayout (g_ActiveConfig g) then '', binding = 3'' else [])
           @ '') uniform GSBlock {\<newline>'']
      else [''cbuffer GSBlock {\<newline>''])
     @ [TAB # ''float4 '' @ I_STEREOPARAMS e @ '';\<newline>''
          @ TAB # ''float4 '' @ I_LINEPTPARAMS e @ '';\<newline>''
          @ TAB # ''int4 '' @ I_TEXOFFSET e @ '';\<newline>''
          @ ''};\<newline>'']
     @ [''struct VS_OUTPUT {\<newline>'']
     @ avatar_members e api []
     @ [''};\<newline>'']"

definition av_interface ::
  "emitters \<Rightarrow> ambient \<Rightarrow> PrimitiveType \<Rightarrow> APIType \<Rightarrow> ShaderHostConfig \<Rightarrow> ShaderCode" where
  "av_interface e g p api hc =
     (if api = OpenGL then
        (if backend_gs_instancing hc
         then [''#define InstanceID gl_InvocationID\<newline>''] else [])
        @ [''in VertexData {\<newline>'']
        @ avatar_members e api
            (if bSupportsBindingLayout (g_ActiveConfig g) then ''centroid'' else ''centroid in'')
        @ [''} vs['' @ fmt_d (vertex_in p) @ ''];\<newline>'']
        @ [''out VertexData {\<newline>'']
        @ avatar_members e api
            (if bSupportsBindingLayout (g_ActiveConfig g) then ''centroid'' else ''centroid out'')
        @ (if multi_layer hc then [TAB # ''flat int layer;\<newline>''] else [])
        @ [''} ps;\<newline>'']
        @ [''void main()\<newline>{\<newline>'']
      else
        [''struct VertexData {\<newline>'']
        @ [TAB # ''VS_OUTPUT o;\<newline>'']
        @ (if multi_layer hc
           then [TAB # ''uint layer : SV_RenderTargetArrayIndex;\<newline>''] else [])
        @ [''};\<newline>'']
        @ (if backend_gs_instancing hc then
             [''[maxvertexcount('' @ fmt_d (vertex_out p (wireframe hc))
                @ '')]\<newline>[instance('' @ fmt_d (layers hc) @ '')]\<newline>'',
              ''void main('' @ primitives_d3d ! unat (prim_code p)
                @ '' VS_OUTPUT o['' @ fmt_d (vertex_in p)
                @ ''], inout '' @ (if wireframe hc then ''Line'' else ''Triangle'')
                @ ''Stream<VertexData> output, in uint InstanceID : SV_GSInstanceID)\<newline>{\<newline>'']
           else
             [''[maxvertexcount('' @ fmt_d (vertex_out p (wireframe hc) * layers hc)
                @ '')]\<newline>'',
              ''void main('' @ primitives_d3d ! unat (prim_code p)
                @ '' VS_OUTPUT o['' @ fmt_d (vertex_in p)
                @ ''], inout '' @ (if wireframe hc then ''Line'' else ''Triangle'')
                @ ''Stream<VertexData> output)\<newline>{\<newline>''])
        @ [TAB # ''VertexData ps;\<newline>''])"

definition av_primitive_setup :: "emitters \<Rightarrow> PrimitiveType \<Rightarrow> APIType \<Rightarrow> ShaderCode" where
  "av_primitive_setup e p api =
     (if p = Lines then
        (if api = OpenGL then
           [TAB # ''VS_OUTPUT start, end;\<newline>'']
           @ avatar_assign ''start'' ''vs[0]''
           @ avatar_assign ''end'' ''vs[1]''
         else
           [TAB # ''VS_OUTPUT start = o[0];\<newline>'',
            TAB # ''VS_OUTPUT end = o[1];\<newline>''])
        @ [line_offset_chunk e
             (TAB # ''float2 to = abs(end.pos.xy - start.pos.xy);\<newline>'')]
      else if p = Points then
        (if api = OpenGL then
           [TAB # ''VS_OUTPUT center;\<newline>'']
           @ avatar_assign ''center'' ''vs[0]''
         else
           [TAB # ''VS_OUTPUT center = o[0];\<newline>''])
        @ [point_offset_chunk e]
      else [])"

text \<open>The software loop over the eyes is written with the literal bound 2.\<close>

definition avatar_eye_loop :: string where
  "avatar_eye_loop = TAB # ''for (int eye = 0; eye < 2; ++eye) {\<newline>''"

definition av_layer_select :: "ShaderHostConfig \<Rightarrow> ShaderCode" where
  "av_layer_select hc =
     (if multi_layer hc then
        (if backend_gs_instancing hc then [eye_binding] else [avatar_eye_loop])
      else [])"

definition av_vertex_loop_head :: "PrimitiveType \<Rightarrow> APIType \<Rightarrow> ShaderHostConfig \<Rightarrow> ShaderCode" where
  "av_vertex_loop_head p api hc =
     (if wireframe hc then [TAB # ''VS_OUTPUT first;\<newline>''] else [])
     @ [vertex_loop p]
     @ (if api = OpenGL then
          [TAB # ''VS_OUTPUT f;\<newline>''] @ avatar_assign ''f'' ''vs[i]''
        else [TAB # ''VS_OUTPUT f = o[i];\<newline>''])"

definition av_layer_offset :: "emitters \<Rightarrow> APIType \<Rightarrow> ShaderHostConfig \<Rightarrow> ShaderCode" where
  "av_layer_offset e api hc =
     (if vr hc then
        [TAB # ''ps.layer = eye;\<newline>'']
        @ (if api = OpenGL then [TAB # ''gl_Layer = eye;\<newline>''] else [])
        @ [TAB # ''f.pos.x += '' @ I_STEREOPARAMS e @ ''[eye] - '' @ I_STEREOPARAMS e
             @ ''[eye+2] * f.pos.w;\<newline>'']
      else if multi_layer hc then
        [TAB # ''ps.layer = eye;\<newline>'']
        @ (if api = OpenGL then [TAB # ''gl_Layer = eye;\<newline>''] else [])
        @ [TAB # ''f.pos.x += '' @ I_STEREOPARAMS e @ ''[eye] * (f.pos.w - ''
             @ I_STEREOPARAMS e @ ''[2]);\<newline>'']
      else [])"

definition avatar_point_nudges :: "emitters \<Rightarrow> ShaderCode" where
  "avatar_point_nudges e =
     concat (map (\<lambda>i.
       [TAB # ''if ((('' @ I_TEXOFFSET e @ ''[1] >> '' @ fmt_d (word_of_nat i)
          @ '') & 0x1) != 0) {\<newline>'',
        TAB # TAB # ''ll.tex'' @ fmt_d (word_of_nat i)
          @ ''.xy += float2(0,1) * texOffset;\<newline>'',
        TAB # TAB # ''lr.tex'' @ fmt_d (word_of_nat i) @ ''.xy += texOffset;\<newline>'',
        TAB # TAB # ''ur.tex'' @ fmt_d (word_of_nat i)
          @ ''.xy += float2(1,0) * texOffset;\<newline>'',
        TAB # ''}\<newline>''])
       [0..<1])"

definition av_expand ::
  "emitters \<Rightarrow> ambient \<Rightarrow> PrimitiveType \<Rightarrow> APIType \<Rightarrow> ShaderHostConfig \<Rightarrow> ShaderCode" where
  "av_expand e g p api hc =
     (if p = Lines then
        [TAB # ''VS_OUTPUT l = f;\<newline>'' @ TAB # ''VS_OUTPUT r = f;\<newline>'',
         TAB # ''l.pos.xy -= offset * l.pos.w;\<newline>''
           @ TAB # ''r.pos.xy += offset * r.pos.w;\<newline>'',
         TAB # ''if ('' @ I_TEXOFFSET e @ ''[2] != 0) {\<newline>'',
         TAB # ''float texOffset = 1.0 / float('' @ I_TEXOFFSET e @ ''[2]);\<newline>'']
        @ line_texgen_nudges e (numTexGens (avatar_uid_data p))
        @ [TAB # ''}\<newline>'']
        @ EmitVertex e hc (avatar_uid_data p) ''l'' api (wireframe hc)
            (bEnablePixelLighting (g_ActiveConfig g)) True
        @ EmitVertex e hc (avatar_uid_data p) ''r'' api (wireframe hc)
            (bEnablePixelLighting (g_ActiveConfig g)) False
      else if p = Points then
        [TAB # ''VS_OUTPUT ll = f;\<newline>'' @ TAB # ''VS_OUTPUT lr = f;\<newline>''
           @ TAB # ''VS_OUTPUT ul = f;\<newline>'' @ TAB # ''VS_OUTPUT ur = f;\<newline>'',
         TAB # ''ll.pos.xy += float2(-1,-1) * offset;\<newline>''
           @ TAB # ''lr.pos.xy += float2(1,-1) * offset;\<newline>''
           @ TAB # ''ul.pos.xy += float2(-1,1) * offset;\<newline>''
           @ TAB # ''ur.pos.xy += offset;\<newline>'',
         TAB # ''if ('' @ I_TEXOFFSET e @ ''[3] != 0) {\<newline>'',
         TAB # ''float2 texOffset = float2(1.0 / float('' @ I_TEXOFFSET e
           @ ''[3]), 1.0 / float('' @ I_TEXOFFSET e @ ''[3]));\<newline>'']
        @ avatar_point_nudges e
        @ [TAB # ''}\<newline>'']
        @ EmitVertex e hc (avatar_uid_data p) ''ll'' api (wireframe hc)
            (bEnablePixelLighting (g_ActiveConfig g)) True
        @ EmitVertex e hc (avatar_uid_data p) ''lr'' api (wireframe hc)
            (bEnablePixelLighting (g_ActiveConfig g)) False
        @ EmitVertex e hc (avatar_uid_data p) ''ul'' api (wireframe hc)
            (bEnablePixelLighting (g_ActiveConfig g)) False
        @ EmitVertex e hc (avatar_uid_data p) ''ur'' api (wireframe hc)
            (bEnablePixelLighting (g_ActiveConfig g)) False
      else
        EmitVertex e hc (avatar_uid_data p) ''f'' api (wireframe hc)
          (bEnablePixelLighting (g_ActiveConfig g)) True)"

definition GenerateAvatarGeometryShaderCode ::
  "emitters \<Rightarrow> ambient \<Rightarrow> PrimitiveType \<Rightarrow> APIType \<Rightarrow> ShaderHostConfig \<Rightarrow> ShaderCode" where
  "GenerateAvatarGeometryShaderCode e g p api hc =
     av_layout_parameters p api hc
     @ av_uniforms e g api
     @ av_interface e g p api hc
     @ av_primitive_setup e p api
     @ av_layer_select hc
     @ av_vertex_loop_head p api hc
     @ av_layer_offset e api hc
     @ av_expand e g p api hc
     @ gs_tail e g api hc (avatar_uid_data p)"

section \<open>Recognising chunks\<close>

text \<open>The head of a software loop over the eyes, whatever its bound.\<close>

definition is_eye_loop :: "string \<Rightarrow> bool" where
  "is_eye_loop w =
     (prefix (TAB # ''for (int eye = 0; eye < '') w \<and> suffix ''; ++eye) {\<newline>'' w)"

text \<open>The statement that binds \<^verbatim>\<open>eye\<close> to the invocation identifier.\<close>

definition is_eye_binding :: "string \<Rightarrow> bool" where
  "is_eye_binding w = (w = TAB # ''int eye = InstanceID;\<newline>'')"

text \<open>
  A statement that adds \<^verbatim>\<open>texOffset\<close> to a texture coordinate: it is indented by two
  tabs and ends with \<^verbatim>\<open>texOffset;\<close>.
\<close>

definition is_nudge :: "string \<Rightarrow> bool" where
  "is_nudge w = (prefix [TAB, TAB] w \<and> suffix ''texOffset;\<newline>'' w)"

text \<open>The assignment to \<^verbatim>\<open>gl_Position\<close> that starts the emission of a vertex.\<close>

definition is_position_write :: "string \<Rightarrow> bool" where
  "is_position_write w = prefix (TAB # ''gl_Position = '') w"

text \<open>
  \<open>flip_added out out'\<close>: the output \<open>out'\<close> is the output \<open>out\<close> with the line that
  negates \<^verbatim>\<open>gl_Position.y\<close> added directly after assignments to \<^verbatim>\<open>gl_Position\<close>,
  and with no other difference.
\<close>

inductive flip_added :: "ShaderCode \<Rightarrow> ShaderCode \<Rightarrow> bool" where
  flip_none: "flip_added [] []"
| flip_same: "flip_added out out' \<Longrightarrow> flip_added (w # out) (w # out')"
| flip_here: "is_position_write w \<Longrightarrow> flip_added out out'
    \<Longrightarrow> flip_added (w # out) (w # flip_line # out')"

text \<open>
  No chunk written by one of the external helpers satisfies \<open>P\<close>.
\<close>

definition emitters_never :: "emitters \<Rightarrow> (string \<Rightarrow> bool) \<Rightarrow> bool" where
  "emitters_never e P =
     (\<not> P (s_lighting_struct e)
      \<and> (\<forall>api n pl q. \<forall>w \<in> set (GenerateVSOutputMembers e api n pl q). \<not> P w)
      \<and> (\<forall>a b n pl. \<forall>w \<in> set (AssignVSOutputMembers e a b n pl). \<not> P w)
      \<and> (\<forall>api q t n i s j. \<forall>w \<in> set (DefineOutputMember e api q t n i s j). \<not> P w))"

section \<open>Concrete inputs\<close>

text \<open>
  An instance of the external helpers, and a configuration with every flag off, for
  evaluating the generator on concrete inputs.
\<close>

definition plain_emitters :: emitters where
  "plain_emitters =
     \<lparr>s_lighting_struct = ''struct Light { int4 color; };\<newline>'',
      I_STEREOPARAMS = ''cstereo'',
      I_LINEPTPARAMS = ''clinept'',
      I_TEXOFFSET = ''ctexoffset'',
      GenerateVSOutputMembers = (\<lambda>api n pl q.
        [''  '' @ q @ '' float4 pos;\<newline>'', ''  '' @ q @ '' float4 colors_0;\<newline>'']),
      AssignVSOutputMembers = (\<lambda>a b n pl.
        [''  '' @ a @ ''.pos = '' @ b @ ''.pos;\<newline>'',
         ''  '' @ a @ ''.colors_0 = '' @ b @ ''.colors_0;\<newline>'']),
      GetInterpolationQualifier = (\<lambda>m s blk inp. ''centroid''),
      DefineOutputMember = (\<lambda>api q t n i s j.
        [''  '' @ q @ '' '' @ t @ '' '' @ n @ '' : '' @ s @ ''0;\<newline>''])\<rparr>"

text \<open>
  A second instance, whose helpers write tab-indented lines; its
  \<^verbatim>\<open>AssignVSOutputMembers\<close> has the shape of the assignments that the avatar variant
  writes inline.
\<close>

definition inline_emitters :: emitters where
  "inline_emitters =
     plain_emitters
       \<lparr>GenerateVSOutputMembers := (\<lambda>api n pl q.
          [TAB # q @ '' float4 pos;\<newline>'', TAB # q @ '' float4 colors_0;\<newline>'']),
        AssignVSOutputMembers := (\<lambda>a b n pl.
          [TAB # a @ ''.pos = '' @ b @ ''.pos;\<newline>'',
           TAB # a @ ''.colors_0 = '' @ b @ ''.colors_0;\<newline>''])\<rparr>"

definition plain_ambient :: ambient where
  "plain_ambient =
     \<lparr>g_ActiveConfig =
        \<lparr>iStereoMode = 0, bWireFrame = False, bEnablePixelLighting = False,
         bSupportsPrimitiveRestart = True, bSupportsBindingLayout = True\<rparr>,
      BUG_BROKEN_CLIP_DISTANCE = False\<rparr>"

definition mono_config :: ShaderHostConfig where
  "mono_config =
     \<lparr>msaa = False, ssaa = False, stereo = False, wireframe = False, vr = False,
      more_layers = 0, backend_gs_instancing = False, backend_depth_clamp = False\<rparr>"

section \<open>Properties\<close>

lemmas gs_blocks = gs_layout_parameters_def gs_uniforms_def gs_interface_def
  gs_primitive_setup_def gs_layer_select_def gs_vertex_loop_head_def gs_layer_offset_def
  gs_expand_def gs_tail_def

subsection \<open>Passthrough test\<close>

text \<open>
  C9. \<^verbatim>\<open>geometry_shader_uid_data::IsPassthrough\<close> is true exactly when the primitive type
  is Triangles or TriangleStrip, the stereo mode of the global configuration is not
  positive and its wireframe flag is off. The function has no host configuration among
  its arguments: the two flags are those of \<^verbatim>\<open>g_ActiveConfig\<close>.
\<close>

theorem IsPassthrough_iff:
  "IsPassthrough g uid \<longleftrightarrow>
     (primitive_type uid = Triangles \<or> primitive_type uid = TriangleStrip)
     \<and> \<not> (0 < iStereoMode (g_ActiveConfig g))
     \<and> \<not> bWireFrame (g_ActiveConfig g)"
  by (cases "primitive_type uid") (simp_all add: IsPassthrough_def word_le_nat_alt)

theorem IsPassthrough_iff_witness:
  "IsPassthrough plain_ambient \<lparr>numTexGens = 0, primitive_type = TriangleStrip\<rparr>
   \<and> \<not> IsPassthrough plain_ambient \<lparr>numTexGens = 0, primitive_type = Lines\<rparr>"
  using IsPassthrough_iff [of plain_ambient "\<lparr>numTexGens = 0, primitive_type = TriangleStrip\<rparr>"]
    IsPassthrough_iff [of plain_ambient "\<lparr>numTexGens = 0, primitive_type = Lines\<rparr>"]
  by (simp add: plain_ambient_def)

subsection \<open>Determinism\<close>

text \<open>
  C1. The generated text is a function of the UID, the host configuration and the target
  API, given the helpers and the two ambient values the generator reads (the pixel
  lighting flag and the clip-distance driver bug): two calls that agree on these produce
  the same text, whatever the rest of the global state, and two UIDs with the same field
  values produce the same text.
\<close>

theorem generation_deterministic:
  fixes u1 u2 :: geometry_shader_uid_data
  assumes "bEnablePixelLighting (g_ActiveConfig g1) = bEnablePixelLighting (g_ActiveConfig g2)"
    and "BUG_BROKEN_CLIP_DISTANCE g1 = BUG_BROKEN_CLIP_DISTANCE g2"
    and "numTexGens u1 = numTexGens u2"
    and "primitive_type u1 = primitive_type u2"
  shows "GetBuffer (GenerateGeometryShaderCode e g1 api hc u1)
       = GetBuffer (GenerateGeometryShaderCode e g2 api hc u2)"
proof -
  have "u1 = u2"
    using assms(3,4) by simp
  moreover have "GenerateGeometryShaderCode e g1 api hc u2
      = GenerateGeometryShaderCode e g2 api hc u2"
    unfolding GenerateGeometryShaderCode_def gs_blocks EndPrimitive_def
    using assms(1,2) by simp
  ultimately show ?thesis by simp
qed

theorem generation_deterministic_witness:
  "GetBuffer (GenerateGeometryShaderCode plain_emitters plain_ambient OpenGL mono_config
       \<lparr>numTexGens = 2, primitive_type = Lines\<rparr>)
   = GetBuffer (GenerateGeometryShaderCode plain_emitters
       (plain_ambient\<lparr>g_ActiveConfig :=
          (g_ActiveConfig plain_ambient)\<lparr>iStereoMode := 1, bWireFrame := True\<rparr>\<rparr>)
       OpenGL mono_config \<lparr>numTexGens = 2, primitive_type = Lines\<rparr>)"
  by (rule generation_deterministic) simp_all

subsection \<open>Enumeration\<close>

lemma enumerate_unfold:
  "EnumerateGeometryShaderUids g callback s =
     fold callback
       (concat (map (\<lambda>p. map (\<lambda>t. \<lparr>numTexGens = t, primitive_type = p\<rparr>)
                        [0, 1, 2, 3, 4, 5, 6, 7, 8])
          (primitive_lut g))) s"
  by (simp add: EnumerateGeometryShaderUids_def primitive_lut_def texgens_loop.simps)

lemma fold_record_uid: "fold record_uid us seen = seen @ us"
  by (induction us arbitrary: seen) (simp_all add: record_uid_def)

lemma fold_count: "fold (\<lambda>uid n. Suc n) us (k::nat) = k + length us"
  by (induction us arbitrary: k) simp_all

lemma enumerate_sequence:
  "EnumerateGeometryShaderUids g record_uid [] =
     concat (map (\<lambda>p. map (\<lambda>t. \<lparr>numTexGens = t, primitive_type = p\<rparr>)
                      [0, 1, 2, 3, 4, 5, 6, 7, 8])
       (primitive_lut g))"
  by (simp only: enumerate_unfold fold_record_uid append_Nil)

lemma enumerate_distinct: "distinct (EnumerateGeometryShaderUids g record_uid [])"
  by (simp add: enumerate_sequence primitive_lut_def)

text \<open>
  C4. Whatever the primitive-restart flag, \<^verbatim>\<open>EnumerateGeometryShaderUids\<close> calls its
  callback 27 times; the 27 UIDs it passes are pairwise distinct (the texture generator
  counts 0 to 8 for each of the three primitive choices); every callback sees this same
  sequence in this order; and the sequence depends on the global state through the
  primitive-restart flag only, so a second run under the same flag yields it again.
\<close>

theorem enumerate_27:
  "EnumerateGeometryShaderUids g (\<lambda>uid n. Suc n) (0::nat) = 27
   \<and> length (EnumerateGeometryShaderUids g record_uid []) = 27
   \<and> distinct (EnumerateGeometryShaderUids g record_uid [])
   \<and> EnumerateGeometryShaderUids g record_uid []
       = concat (map (\<lambda>p. map (\<lambda>t. \<lparr>numTexGens = t, primitive_type = p\<rparr>)
                            [0, 1, 2, 3, 4, 5, 6, 7, 8])
           [if bSupportsPrimitiveRestart (g_ActiveConfig g) then TriangleStrip else Triangles,
            Lines, Points])
   \<and> EnumerateGeometryShaderUids g callback s
       = fold callback (EnumerateGeometryShaderUids g record_uid []) s
   \<and> (bSupportsPrimitiveRestart (g_ActiveConfig g') = bSupportsPrimitiveRestart (g_ActiveConfig g)
        \<longrightarrow> EnumerateGeometryShaderUids g' record_uid []
            = EnumerateGeometryShaderUids g record_uid [])"
proof -
  have count: "EnumerateGeometryShaderUids g (\<lambda>uid n. Suc n) (0::nat) = 27"
    by (simp add: enumerate_unfold fold_count primitive_lut_def)
  have len: "length (EnumerateGeometryShaderUids g record_uid []) = 27"
    by (simp add: enumerate_sequence primitive_lut_def)
  have gen: "EnumerateGeometryShaderUids g callback s
       = fold callback (EnumerateGeometryShaderUids g record_uid []) s"
    by (simp only: enumerate_sequence) (rule enumerate_unfold)
  have same: "bSupportsPrimitiveRestart (g_ActiveConfig g') = bSupportsPrimitiveRestart (g_ActiveConfig g)
        \<longrightarrow> EnumerateGeometryShaderUids g' record_uid []
            = EnumerateGeometryShaderUids g record_uid []"
    by (simp add: enumerate_sequence primitive_lut_def)
  have seq: "EnumerateGeometryShaderUids g record_uid []
       = concat (map (\<lambda>p. map (\<lambda>t. \<lparr>numTexGens = t, primitive_type = p\<rparr>)
                            [0, 1, 2, 3, 4, 5, 6, 7, 8])
           [if bSupportsPrimitiveRestart (g_ActiveConfig g) then TriangleStrip else Triangles,
            Lines, Points])"
    by (simp only: enumerate_sequence primitive_lut_def)
  from count len enumerate_distinct seq gen same show ?thesis by blast
qed

theorem enumerate_27_witness:
  "EnumerateGeometryShaderUids plain_ambient (\<lambda>uid n. Suc n) (0::nat) = 27
   \<and> distinct (EnumerateGeometryShaderUids plain_ambient record_uid [])
   \<and> EnumerateGeometryShaderUids (plain_ambient\<lparr>BUG_BROKEN_CLIP_DISTANCE := True\<rparr>) record_uid []
       = EnumerateGeometryShaderUids plain_ambient record_uid []"
  using enumerate_27 [of plain_ambient "\<lambda>uid n. n" "0::nat"
      "plain_ambient\<lparr>BUG_BROKEN_CLIP_DISTANCE := True\<rparr>"]
  by simp

subsection \<open>Declared vertex counts\<close>

lemma in_GetBuffer: "w \<in> set out \<Longrightarrow> sublist w (GetBuffer out)"
proof -
  assume "w \<in> set out"
  then obtain xs ys where "out = xs @ w # ys"
    by (auto simp: in_set_conv_decomp)
  then have "GetBuffer out = concat xs @ w @ concat ys"
    by (simp add: GetBuffer_def)
  then show ?thesis
    unfolding sublist_def by blast
qed

lemma vertex_in_values:
  "vertex_in Points = 1" "vertex_in Lines = 2" "vertex_in Triangles = 3"
  "vertex_in TriangleStrip = 3"
  by (simp_all add: vertex_in_def)

lemma vertex_loop_written:
  "vertex_loop (primitive_type uid) \<in> set (GenerateGeometryShaderCode e g api hc uid)"
  by (simp add: GenerateGeometryShaderCode_def gs_vertex_loop_head_def)

lemma max_vertices_written:
  "api \<noteq> D3D \<Longrightarrow>
   GenerateGeometryShaderCode e g api hc uid ! 1 =
     ''layout('' @ (if wireframe hc then ''line'' else ''triangle'')
       @ ''_strip, max_vertices = ''
       @ fmt_d (if backend_gs_instancing hc then vertex_out (primitive_type uid) (wireframe hc)
                else vertex_out (primitive_type uid) (wireframe hc) * layers hc)
       @ '') out;\<newline>''"
  by (cases api) (simp_all add: GenerateGeometryShaderCode_def gs_layout_parameters_def)

lemma vs_array_written:
  "api \<noteq> D3D \<Longrightarrow>
   ''} vs['' @ fmt_d (vertex_in (primitive_type uid)) @ ''];\<newline>''
     \<in> set (GenerateGeometryShaderCode e g api hc uid)"
proof -
  assume "api \<noteq> D3D"
  then have "''} vs['' @ fmt_d (vertex_in (primitive_type uid)) @ ''];\<newline>''
     \<in> set (gs_interface e g api hc uid)"
    by (cases api) (simp_all add: gs_interface_def)
  then show ?thesis
    by (simp add: GenerateGeometryShaderCode_def)
qed

lemma maxvertexcount_written:
  "api = D3D \<Longrightarrow>
   (if backend_gs_instancing hc
    then ''[maxvertexcount('' @ fmt_d (vertex_out (primitive_type uid) (wireframe hc))
           @ '')]\<newline>[instance('' @ fmt_d (layers hc) @ '')]\<newline>''
    else ''[maxvertexcount(''
           @ fmt_d (vertex_out (primitive_type uid) (wireframe hc) * layers hc)
           @ '')]\<newline>'')
     \<in> set (GenerateGeometryShaderCode e g api hc uid)"
proof -
  assume "api = D3D"
  then have "(if backend_gs_instancing hc
    then ''[maxvertexcount('' @ fmt_d (vertex_out (primitive_type uid) (wireframe hc))
           @ '')]\<newline>[instance('' @ fmt_d (layers hc) @ '')]\<newline>''
    else ''[maxvertexcount(''
           @ fmt_d (vertex_out (primitive_type uid) (wireframe hc) * layers hc)
           @ '')]\<newline>'')
     \<in> set (gs_interface e g api hc uid)"
    by (simp add: gs_interface_def)
  then show ?thesis
    by (simp add: GenerateGeometryShaderCode_def)
qed

lemma d3d_main_written:
  "api = D3D \<Longrightarrow>
   ''void main('' @ primitives_d3d ! unat (prim_code (primitive_type uid))
      @ '' VS_OUTPUT o['' @ fmt_d (vertex_in (primitive_type uid))
      @ ''], inout '' @ (if wireframe hc then ''Line'' else ''Triangle'')
      @ (if backend_gs_instancing hc
         then ''Stream<VertexData> output, in uint InstanceID : SV_GSInstanceID)\<newline>{\<newline>''
         else ''Stream<VertexData> output)\<newline>{\<newline>'')
     \<in> set (GenerateGeometryShaderCode e g api hc uid)"
proof -
  assume "api = D3D"
  then have "''void main('' @ primitives_d3d ! unat (prim_code (primitive_type uid))
      @ '' VS_OUTPUT o['' @ fmt_d (vertex_in (primitive_type uid))
      @ ''], inout '' @ (if wireframe hc then ''Line'' else ''Triangle'')
      @ (if backend_gs_instancing hc
         then ''Stream<VertexData> output, in uint InstanceID : SV_GSInstanceID)\<newline>{\<newline>''
         else ''Stream<VertexData> output)\<newline>{\<newline>'')
     \<in> set (gs_interface e g api hc uid)"
    by (simp add: gs_interface_def)
  then show ?thesis
    by (simp add: GenerateGeometryShaderCode_def)
qed

text \<open>
  C3. The vertex-out count is 3 for a triangle strip and 4 otherwise, plus one in wireframe
  mode; it is computed from the primitive type and the wireframe flag alone, so the number
  of texture generators does not enter it. The input vertex count is 1 for points, 2 for
  lines and 3 for triangles and triangle strips. These are the counts the declarations
  carry: \<^verbatim>\<open>max_vertices\<close> (the vertex-out count, times the layer count without
  instancing) and \<^verbatim>\<open>vs[n]\<close> for OpenGL and Vulkan, \<^verbatim>\<open>maxvertexcount\<close> and
  \<^verbatim>\<open>o[n]\<close> for D3D, and the bound of the loop over the input vertices.
\<close>

theorem vertex_count_law:
  "vertex_out (primitive_type uid) (wireframe hc)
     = (if primitive_type uid = TriangleStrip then 3 else 4) + (if wireframe hc then 1 else 0)
   \<and> vertex_in Points = 1 \<and> vertex_in Lines = 2
   \<and> vertex_in Triangles = 3 \<and> vertex_in TriangleStrip = 3
   \<and> TAB # ''for (int i = 0; i < '' @ fmt_d (vertex_in (primitive_type uid)) @ ''; ++i) {\<newline>''
       \<in> set (GenerateGeometryShaderCode e g api hc uid)
   \<and> (api \<noteq> D3D \<longrightarrow>
        GenerateGeometryShaderCode e g api hc (uid\<lparr>numTexGens := n\<rparr>) ! 1
          = GenerateGeometryShaderCode e g api hc uid ! 1)
   \<and> (api \<noteq> D3D \<longrightarrow>
        GenerateGeometryShaderCode e g api hc uid ! 1 =
          ''layout('' @ (if wireframe hc then ''line'' else ''triangle'')
            @ ''_strip, max_vertices = ''
            @ fmt_d (if backend_gs_instancing hc
                     then vertex_out (primitive_type uid) (wireframe hc)
                     else vertex_out (primitive_type uid) (wireframe hc) * layers hc)
            @ '') out;\<newline>''
        \<and> ''} vs['' @ fmt_d (vertex_in (primitive_type uid)) @ ''];\<newline>''
            \<in> set (GenerateGeometryShaderCode e g api hc uid))
   \<and> (api = D3D \<longrightarrow>
        (if backend_gs_instancing hc
         then ''[maxvertexcount('' @ fmt_d (vertex_out (primitive_type uid) (wireframe hc))
                @ '')]\<newline>[instance('' @ fmt_d (layers hc) @ '')]\<newline>''
         else ''[maxvertexcount(''
                @ fmt_d (vertex_out (primitive_type uid) (wireframe hc) * layers hc)
                @ '')]\<newline>'')
          \<in> set (GenerateGeometryShaderCode e g api hc uid)
        \<and> ''void main('' @ primitives_d3d ! unat (prim_code (primitive_type uid))
            @ '' VS_OUTPUT o['' @ fmt_d (vertex_in (primitive_type uid))
            @ ''], inout '' @ (if wireframe hc then ''Line'' else ''Triangle'')
            @ (if backend_gs_instancing hc
               then ''Stream<VertexData> output, in uint InstanceID : SV_GSInstanceID)\<newline>{\<newline>''
               else ''Stream<VertexData> output)\<newline>{\<newline>'')
          \<in> set (GenerateGeometryShaderCode e g api hc uid))"
proof -
  have vo: "vertex_out (primitive_type uid) (wireframe hc)
     = (if primitive_type uid = TriangleStrip then 3 else 4) + (if wireframe hc then 1 else 0)"
    by (simp add: vertex_out_def)
  have ind: "api \<noteq> D3D \<longrightarrow>
        GenerateGeometryShaderCode e g api hc (uid\<lparr>numTexGens := n\<rparr>) ! 1
          = GenerateGeometryShaderCode e g api hc uid ! 1"
    using max_vertices_written [of api e g hc uid]
      max_vertices_written [of api e g hc "uid\<lparr>numTexGens := n\<rparr>"]
    by simp
  have loop: "TAB # ''for (int i = 0; i < '' @ fmt_d (vertex_in (primitive_type uid))
       @ ''; ++i) {\<newline>'' \<in> set (GenerateGeometryShaderCode e g api hc uid)"
    using vertex_loop_written [of uid e g api hc] by (simp add: vertex_loop_def)
  show ?thesis
    using vo ind loop vertex_in_values
      max_vertices_written [of api e g hc uid] vs_array_written [of api uid e g hc]
      maxvertexcount_written [of api hc uid e g] d3d_main_written [of api uid hc e g]
    by blast
qed

theorem vertex_count_law_witness:
  "vertex_out Lines True = 5
   \<and> GenerateGeometryShaderCode plain_emitters plain_ambient OpenGL
         (mono_config\<lparr>wireframe := True\<rparr>) \<lparr>numTexGens = 2, primitive_type = Lines\<rparr> ! 1
       = ''layout(line_strip, max_vertices = 5) out;\<newline>''
   \<and> ''} vs[2];\<newline>''
       \<in> set (GenerateGeometryShaderCode plain_emitters plain_ambient OpenGL
             (mono_config\<lparr>wireframe := True\<rparr>) \<lparr>numTexGens = 2, primitive_type = Lines\<rparr>)"
  using vertex_count_law [where hc = "mono_config\<lparr>wireframe := True\<rparr>" and api = OpenGL
      and uid = "\<lparr>numTexGens = 2, primitive_type = Lines\<rparr>" and g = plain_ambient
      and e = plain_emitters]
  by (simp add: mono_config_def layers_def vertex_in_def fmt_d_def string_of_nat.simps digit_def)


subsection \<open>Layers\<close>

lemma never_lighting: "emitters_never e P \<Longrightarrow> \<not> P (s_lighting_struct e)"
  by (simp add: emitters_never_def)

lemma never_GenerateVSOutputMembers:
  "emitters_never e P \<Longrightarrow> filter P (GenerateVSOutputMembers e api n pl q) = []"
  by (simp add: emitters_never_def filter_empty_conv)

lemma never_AssignVSOutputMembers:
  "emitters_never e P \<Longrightarrow> filter P (AssignVSOutputMembers e a b n pl) = []"
  by (simp add: emitters_never_def filter_empty_conv)

lemma never_DefineOutputMember:
  "emitters_never e P \<Longrightarrow> filter P (DefineOutputMember e api q t n i s j) = []"
  by (simp add: emitters_never_def filter_empty_conv)

lemmas never_simps = never_GenerateVSOutputMembers never_AssignVSOutputMembers
  never_DefineOutputMember

lemma eye_loop_EmitVertex:
  assumes "emitters_never e is_eye_loop"
  shows "filter is_eye_loop (EmitVertex e hc uid v api wire pl fv) = []"
  by (simp add: EmitVertex_def never_simps [OF assms] is_eye_loop_def flip_line_def)

lemma eye_loop_layout: "filter is_eye_loop (gs_layout_parameters api hc uid) = []"
  by (simp add: gs_layout_parameters_def is_eye_loop_def)

lemma eye_loop_uniforms:
  assumes "emitters_never e is_eye_loop"
  shows "filter is_eye_loop (gs_uniforms e g api uid) = []"
  using never_lighting [OF assms]
  by (simp add: gs_uniforms_def never_simps [OF assms] is_eye_loop_def)

lemma eye_loop_interface:
  assumes "emitters_never e is_eye_loop"
  shows "filter is_eye_loop (gs_interface e g api hc uid) = []"
  by (simp add: gs_interface_def never_simps [OF assms] is_eye_loop_def)

lemma eye_loop_primitive_setup:
  assumes "emitters_never e is_eye_loop"
  shows "filter is_eye_loop (gs_primitive_setup e g api uid) = []"
  by (simp add: gs_primitive_setup_def never_simps [OF assms] line_offset_chunk_def
      point_offset_chunk_def is_eye_loop_def)

lemma is_eye_loop_eye_loop: "is_eye_loop (eye_loop n)"
  by (simp add: eye_loop_def is_eye_loop_def suffix_to_prefix)

lemma eye_loop_layer_select:
  "filter is_eye_loop (gs_layer_select hc) =
     (if multi_layer hc \<and> \<not> backend_gs_instancing hc then [eye_loop (layers hc)] else [])"
  by (simp add: gs_layer_select_def is_eye_loop_eye_loop)
     (simp add: is_eye_loop_def eye_binding_def)

lemma eye_loop_vertex_loop_head:
  assumes "emitters_never e is_eye_loop"
  shows "filter is_eye_loop (gs_vertex_loop_head e g api hc uid) = []"
  by (simp add: gs_vertex_loop_head_def never_simps [OF assms] vertex_loop_def is_eye_loop_def)

lemma eye_loop_layer_offset: "filter is_eye_loop (gs_layer_offset e api hc) = []"
  by (simp add: gs_layer_offset_def is_eye_loop_def)

lemma eye_loop_line_nudges: "filter is_eye_loop (line_texgen_nudges e n) = []"
  by (simp add: line_texgen_nudges_def filter_concat is_eye_loop_def filter_empty_conv)

lemma eye_loop_point_nudges: "filter is_eye_loop (point_texgen_nudges e n) = []"
  by (simp add: point_texgen_nudges_def filter_concat is_eye_loop_def filter_empty_conv)

lemma eye_loop_expand:
  assumes "emitters_never e is_eye_loop"
  shows "filter is_eye_loop (gs_expand e g api hc uid) = []"
  by (simp add: gs_expand_def eye_loop_EmitVertex [OF assms] eye_loop_line_nudges
      eye_loop_point_nudges is_eye_loop_def)

lemma eye_loop_tail:
  assumes "emitters_never e is_eye_loop"
  shows "filter is_eye_loop (gs_tail e g api hc uid) = []"
  by (simp add: gs_tail_def EndPrimitive_def eye_loop_EmitVertex [OF assms] is_eye_loop_def)

lemma eye_loops_of_generator:
  assumes "emitters_never e is_eye_loop"
  shows "filter is_eye_loop (GenerateGeometryShaderCode e g api hc uid) =
     (if multi_layer hc \<and> \<not> backend_gs_instancing hc then [eye_loop (layers hc)] else [])"
  by (simp add: GenerateGeometryShaderCode_def eye_loop_layout eye_loop_uniforms [OF assms]
      eye_loop_interface [OF assms] eye_loop_primitive_setup [OF assms] eye_loop_layer_select
      eye_loop_vertex_loop_head [OF assms] eye_loop_layer_offset eye_loop_expand [OF assms]
      eye_loop_tail [OF assms])

lemmas gs_all = GenerateGeometryShaderCode_def gs_layout_parameters_def gs_uniforms_def gs_interface_def
  gs_primitive_setup_def gs_layer_select_def gs_vertex_loop_head_def gs_layer_offset_def
  gs_expand_def gs_tail_def EmitVertex_def EndPrimitive_def line_texgen_nudges_def point_texgen_nudges_def
  line_offset_chunk_def point_offset_chunk_def vertex_loop_def eye_loop_def eye_binding_def flip_line_def
  vertex_in_def vertex_out_def layers_def multi_layer_def primitives_ogl_def primitives_d3d_def
  fmt_d_def string_of_nat.simps digit_def plain_emitters_def plain_ambient_def mono_config_def

lemma layout_written:
  "api \<noteq> D3D \<Longrightarrow>
   take 2 (GenerateGeometryShaderCode e g api hc uid) =
     (if backend_gs_instancing hc then
        [''layout('' @ primitives_ogl ! unat (prim_code (primitive_type uid))
           @ '', invocations = '' @ fmt_d (layers hc) @ '') in;\<newline>'',
         ''layout('' @ (if wireframe hc then ''line'' else ''triangle'')
           @ ''_strip, max_vertices = ''
           @ fmt_d (vertex_out (primitive_type uid) (wireframe hc)) @ '') out;\<newline>'']
      else
        [''layout('' @ primitives_ogl ! unat (prim_code (primitive_type uid))
           @ '') in;\<newline>'',
         ''layout('' @ (if wireframe hc then ''line'' else ''triangle'')
           @ ''_strip, max_vertices = ''
           @ fmt_d (vertex_out (primitive_type uid) (wireframe hc) * layers hc)
           @ '') out;\<newline>''])"
  by (cases api) (simp_all add: GenerateGeometryShaderCode_def gs_layout_parameters_def)

lemma eye_binding_written:
  "multi_layer hc \<Longrightarrow> backend_gs_instancing hc \<Longrightarrow>
   eye_binding \<in> set (GenerateGeometryShaderCode e g api hc uid)"
  by (simp add: GenerateGeometryShaderCode_def gs_layer_select_def)

lemma eye_loop_wraps:
  assumes "multi_layer hc" and "\<not> backend_gs_instancing hc"
  shows "\<exists>pre body. GenerateGeometryShaderCode e g api hc uid
            = pre @ [eye_loop (layers hc)] @ body @ [TAB # ''}\<newline>'', ''}\<newline>'']
          \<and> vertex_loop (primitive_type uid) \<in> set body
          \<and> (if api = D3D then TAB # ''output.RestartStrip();\<newline>''
              else TAB # ''EndPrimitive();\<newline>'') \<in> set body"
proof -
  let ?pre = "gs_layout_parameters api hc uid @ gs_uniforms e g api uid
    @ gs_interface e g api hc uid @ gs_primitive_setup e g api uid"
  let ?body = "gs_vertex_loop_head e g api hc uid @ gs_layer_offset e api hc
    @ gs_expand e g api hc uid @ [TAB # ''}\<newline>'']
    @ EndPrimitive e hc uid api (wireframe hc) (bEnablePixelLighting (g_ActiveConfig g))"
  have "GenerateGeometryShaderCode e g api hc uid
      = ?pre @ [eye_loop (layers hc)] @ ?body @ [TAB # ''}\<newline>'', ''}\<newline>'']"
    using assms by (simp add: GenerateGeometryShaderCode_def gs_layer_select_def gs_tail_def)
  moreover have "vertex_loop (primitive_type uid) \<in> set ?body"
    by (simp add: gs_vertex_loop_head_def)
  moreover have "(if api = D3D then TAB # ''output.RestartStrip();\<newline>''
              else TAB # ''EndPrimitive();\<newline>'') \<in> set ?body"
    by (cases api) (simp_all add: EndPrimitive_def)
  ultimately show ?thesis by blast
qed

lemma eye_binding_EmitVertex:
  assumes "emitters_never e is_eye_binding"
  shows "filter is_eye_binding (EmitVertex e hc uid v api wire pl fv) = []"
  by (simp add: EmitVertex_def never_simps [OF assms] is_eye_binding_def flip_line_def)

lemma eye_binding_layout: "filter is_eye_binding (gs_layout_parameters api hc uid) = []"
  by (simp add: gs_layout_parameters_def is_eye_binding_def)

lemma eye_binding_uniforms:
  assumes "emitters_never e is_eye_binding"
  shows "filter is_eye_binding (gs_uniforms e g api uid) = []"
  using never_lighting [OF assms]
  by (simp add: gs_uniforms_def never_simps [OF assms] is_eye_binding_def)

lemma eye_binding_interface:
  assumes "emitters_never e is_eye_binding"
  shows "filter is_eye_binding (gs_interface e g api hc uid) = []"
  by (simp add: gs_interface_def never_simps [OF assms] is_eye_binding_def)

lemma eye_binding_primitive_setup:
  assumes "emitters_never e is_eye_binding"
  shows "filter is_eye_binding (gs_primitive_setup e g api uid) = []"
  by (simp add: gs_primitive_setup_def never_simps [OF assms] line_offset_chunk_def
      point_offset_chunk_def is_eye_binding_def)

lemma eye_binding_layer_select:
  "filter is_eye_binding (gs_layer_select hc) =
     (if multi_layer hc \<and> backend_gs_instancing hc
      then [TAB # ''int eye = InstanceID;\<newline>''] else [])"
  by (simp add: gs_layer_select_def is_eye_binding_def eye_binding_def eye_loop_def)

lemma eye_binding_vertex_loop_head:
  assumes "emitters_never e is_eye_binding"
  shows "filter is_eye_binding (gs_vertex_loop_head e g api hc uid) = []"
  by (simp add: gs_vertex_loop_head_def never_simps [OF assms] vertex_loop_def
      is_eye_binding_def)

lemma eye_binding_layer_offset: "filter is_eye_binding (gs_layer_offset e api hc) = []"
  by (simp add: gs_layer_offset_def is_eye_binding_def)

lemma eye_binding_line_nudges: "filter is_eye_binding (line_texgen_nudges e n) = []"
  by (simp add: line_texgen_nudges_def filter_concat is_eye_binding_def filter_empty_conv)

lemma eye_binding_point_nudges: "filter is_eye_binding (point_texgen_nudges e n) = []"
  by (simp add: point_texgen_nudges_def filter_concat is_eye_binding_def filter_empty_conv)

lemma eye_binding_expand:
  assumes "emitters_never e is_eye_binding"
  shows "filter is_eye_binding (gs_expand e g api hc uid) = []"
  by (simp add: gs_expand_def eye_binding_EmitVertex [OF assms] eye_binding_line_nudges
      eye_binding_point_nudges is_eye_binding_def)

lemma eye_binding_tail:
  assumes "emitters_never e is_eye_binding"
  shows "filter is_eye_binding (gs_tail e g api hc uid) = []"
  by (simp add: gs_tail_def EndPrimitive_def eye_binding_EmitVertex [OF assms]
      is_eye_binding_def)

lemma eye_bindings_of_generator:
  assumes "emitters_never e is_eye_binding"
  shows "filter is_eye_binding (GenerateGeometryShaderCode e g api hc uid) =
     (if multi_layer hc \<and> backend_gs_instancing hc
      then [TAB # ''int eye = InstanceID;\<newline>''] else [])"
  by (simp add: GenerateGeometryShaderCode_def eye_binding_layout eye_binding_uniforms [OF assms]
      eye_binding_interface [OF assms] eye_binding_primitive_setup [OF assms]
      eye_binding_layer_select eye_binding_vertex_loop_head [OF assms]
      eye_binding_layer_offset eye_binding_expand [OF assms] eye_binding_tail [OF assms])

lemma no_eye_binding:
  assumes "emitters_never e is_eye_binding"
    and "\<not> (multi_layer hc \<and> backend_gs_instancing hc)"
  shows "TAB # ''int eye = InstanceID;\<newline>''
     \<notin> set (GenerateGeometryShaderCode e g api hc uid)"
proof
  assume "TAB # ''int eye = InstanceID;\<newline>''
     \<in> set (GenerateGeometryShaderCode e g api hc uid)"
  then have "TAB # ''int eye = InstanceID;\<newline>''
     \<in> set (filter is_eye_binding (GenerateGeometryShaderCode e g api hc uid))"
    by (simp add: is_eye_binding_def)
  with eye_bindings_of_generator [OF assms(1), of g api hc uid] assms(2)
  show False by simp
qed

lemma inline_never_eye_loop: "emitters_never inline_emitters is_eye_loop"
  by (simp add: emitters_never_def inline_emitters_def plain_emitters_def is_eye_loop_def
      suffix_to_prefix)

lemma inline_never_eye_binding: "emitters_never inline_emitters is_eye_binding"
  by (simp add: emitters_never_def inline_emitters_def plain_emitters_def is_eye_binding_def)


text \<open>
  C2 (as amended). The layer count is \<open>more_layers * 2 + (stereo ? 1 : 0) + 1\<close>. For
  OpenGL and Vulkan the output starts with the two layout declarations: with instancing
  \<^verbatim>\<open>invocations = layers\<close> and \<^verbatim>\<open>max_vertices = vertex_out\<close>, without it
  \<^verbatim>\<open>max_vertices = vertex_out * layers\<close>; for D3D the same numbers stand in
  \<^verbatim>\<open>maxvertexcount\<close> and \<^verbatim>\<open>instance\<close>. When stereo or more_layers is set: with
  instancing \<^verbatim>\<open>eye\<close> is bound to the invocation identifier and no software loop is
  written; without instancing the one loop \<^verbatim>\<open>for (int eye = 0; eye < layers; ++eye)\<close>
  is written, and it encloses the loop over the input vertices and the end of the
  primitive. When neither is set, neither the binding of \<^verbatim>\<open>eye\<close> nor a loop over
  the eyes is written. (Where the statement is that the output has no loop head, or no
  binding of \<^verbatim>\<open>eye\<close>, the helpers of other translation units are assumed not to
  write one.)
\<close>

theorem layer_law:
  "layers hc = more_layers hc * 2 + (if stereo hc then 1 else 0) + 1
   \<and> (api \<noteq> D3D \<longrightarrow>
        take 2 (GenerateGeometryShaderCode e g api hc uid) =
          (if backend_gs_instancing hc then
             [''layout('' @ primitives_ogl ! unat (prim_code (primitive_type uid))
                @ '', invocations = '' @ fmt_d (layers hc) @ '') in;\<newline>'',
              ''layout('' @ (if wireframe hc then ''line'' else ''triangle'')
                @ ''_strip, max_vertices = ''
                @ fmt_d (vertex_out (primitive_type uid) (wireframe hc)) @ '') out;\<newline>'']
           else
             [''layout('' @ primitives_ogl ! unat (prim_code (primitive_type uid))
                @ '') in;\<newline>'',
              ''layout('' @ (if wireframe hc then ''line'' else ''triangle'')
                @ ''_strip, max_vertices = ''
                @ fmt_d (vertex_out (primitive_type uid) (wireframe hc) * layers hc)
                @ '') out;\<newline>'']))
   \<and> (api = D3D \<longrightarrow>
        (if backend_gs_instancing hc
         then ''[maxvertexcount('' @ fmt_d (vertex_out (primitive_type uid) (wireframe hc))
                @ '')]\<newline>[instance('' @ fmt_d (layers hc) @ '')]\<newline>''
         else ''[maxvertexcount(''
                @ fmt_d (vertex_out (primitive_type uid) (wireframe hc) * layers hc)
                @ '')]\<newline>'')
          \<in> set (GenerateGeometryShaderCode e g api hc uid))
   \<and> ((stereo hc \<or> more_layers hc \<noteq> 0) \<and> backend_gs_instancing hc \<longrightarrow>
        TAB # ''int eye = InstanceID;\<newline>''
          \<in> set (GenerateGeometryShaderCode e g api hc uid)
        \<and> (emitters_never e is_eye_loop \<longrightarrow>
             filter is_eye_loop (GenerateGeometryShaderCode e g api hc uid) = []))
   \<and> ((stereo hc \<or> more_layers hc \<noteq> 0) \<and> \<not> backend_gs_instancing hc \<longrightarrow>
        (\<exists>pre body. GenerateGeometryShaderCode e g api hc uid
              = pre @ [TAB # ''for (int eye = 0; eye < '' @ fmt_d (layers hc)
                         @ ''; ++eye) {\<newline>'']
                @ body @ [TAB # ''}\<newline>'', ''}\<newline>'']
            \<and> TAB # ''for (int i = 0; i < '' @ fmt_d (vertex_in (primitive_type uid))
                  @ ''; ++i) {\<newline>'' \<in> set body
            \<and> (if api = D3D then TAB # ''output.RestartStrip();\<newline>''
                else TAB # ''EndPrimitive();\<newline>'') \<in> set body)
        \<and> (emitters_never e is_eye_loop \<longrightarrow>
             filter is_eye_loop (GenerateGeometryShaderCode e g api hc uid)
               = [TAB # ''for (int eye = 0; eye < '' @ fmt_d (layers hc)
                    @ ''; ++eye) {\<newline>'']))
   \<and> (\<not> (stereo hc \<or> more_layers hc \<noteq> 0) \<and> emitters_never e is_eye_loop \<longrightarrow>
        filter is_eye_loop (GenerateGeometryShaderCode e g api hc uid) = [])
   \<and> (\<not> (stereo hc \<or> more_layers hc \<noteq> 0) \<and> emitters_never e is_eye_binding \<longrightarrow>
        TAB # ''int eye = InstanceID;\<newline>''
          \<notin> set (GenerateGeometryShaderCode e g api hc uid))
   \<and> (emitters_never e is_eye_binding \<longrightarrow>
        filter is_eye_binding (GenerateGeometryShaderCode e g api hc uid)
          = (if (stereo hc \<or> more_layers hc \<noteq> 0) \<and> backend_gs_instancing hc
             then [TAB # ''int eye = InstanceID;\<newline>''] else []))"
  using layout_written [of api e g hc uid] maxvertexcount_written [of api hc uid e g]
    eye_binding_written [of hc e g api uid] eye_loops_of_generator [of e g api hc uid]
    eye_loop_wraps [of hc e g api uid] eye_bindings_of_generator [of e g api hc uid]
    no_eye_binding [of e hc g api uid]
  by (simp add: layers_def multi_layer_def eye_binding_def eye_loop_def vertex_loop_def)

theorem layer_law_witness:
  "take 2 (GenerateGeometryShaderCode inline_emitters plain_ambient OpenGL
       (mono_config\<lparr>stereo := True, backend_gs_instancing := True\<rparr>)
       \<lparr>numTexGens = 2, primitive_type = Lines\<rparr>)
     = [''layout(lines, invocations = 2) in;\<newline>'',
        ''layout(triangle_strip, max_vertices = 4) out;\<newline>'']
   \<and> TAB # ''int eye = InstanceID;\<newline>''
       \<in> set (GenerateGeometryShaderCode inline_emitters plain_ambient OpenGL
             (mono_config\<lparr>stereo := True, backend_gs_instancing := True\<rparr>)
             \<lparr>numTexGens = 2, primitive_type = Lines\<rparr>)
   \<and> filter is_eye_loop (GenerateGeometryShaderCode inline_emitters plain_ambient OpenGL
       (mono_config\<lparr>stereo := True, backend_gs_instancing := True\<rparr>)
       \<lparr>numTexGens = 2, primitive_type = Lines\<rparr>) = []
   \<and> TAB # ''int eye = InstanceID;\<newline>''
       \<notin> set (GenerateGeometryShaderCode inline_emitters plain_ambient OpenGL
             (mono_config\<lparr>backend_gs_instancing := True\<rparr>)
             \<lparr>numTexGens = 2, primitive_type = Lines\<rparr>)
   \<and> filter is_eye_loop (GenerateGeometryShaderCode inline_emitters plain_ambient OpenGL
       mono_config \<lparr>numTexGens = 2, primitive_type = Lines\<rparr>) = []"
  using inline_never_eye_loop inline_never_eye_binding
    layer_law [where e = inline_emitters and
      hc = "mono_config\<lparr>stereo := True, backend_gs_instancing := True\<rparr>" and api = OpenGL
      and uid = "\<lparr>numTexGens = 2, primitive_type = Lines\<rparr>" and g = plain_ambient]
    layer_law [where e = inline_emitters and
      hc = "mono_config\<lparr>backend_gs_instancing := True\<rparr>" and api = OpenGL
      and uid = "\<lparr>numTexGens = 2, primitive_type = Lines\<rparr>" and g = plain_ambient]
    layer_law [where e = inline_emitters and hc = mono_config and api = OpenGL
      and uid = "\<lparr>numTexGens = 2, primitive_type = Lines\<rparr>" and g = plain_ambient]
  by (simp add: mono_config_def layers_def vertex_out_def primitives_ogl_def
      fmt_d_def string_of_nat.simps digit_def)

text \<open>
  The unamended claim fails for a configuration with neither stereo nor more_layers:
  without instancing no loop over the eyes is written, and with instancing \<^verbatim>\<open>eye\<close>
  is not bound.
\<close>

theorem layer_law_counterexample:
  "filter is_eye_loop (GenerateGeometryShaderCode plain_emitters plain_ambient OpenGL mono_config
       \<lparr>numTexGens = 0, primitive_type = Triangles\<rparr>) = []
   \<and> eye_binding \<notin> set (GenerateGeometryShaderCode plain_emitters plain_ambient OpenGL
       (mono_config\<lparr>backend_gs_instancing := True\<rparr>)
       \<lparr>numTexGens = 0, primitive_type = Triangles\<rparr>)"
  by (simp add: gs_all is_eye_loop_def)

subsection \<open>Wireframe\<close>

lemma first_declared:
  "wireframe hc \<Longrightarrow>
   TAB # ''VS_OUTPUT first;\<newline>'' \<in> set (GenerateGeometryShaderCode e g api hc uid)"
  by (simp add: GenerateGeometryShaderCode_def gs_vertex_loop_head_def)

lemma first_remembered:
  assumes "wireframe hc"
  shows "TAB # ''if (i == 0) first = ''
       @ (if primitive_type uid = Lines then ''l''
          else if primitive_type uid = Points then ''ll'' else ''f'') @ '';\<newline>''
     \<in> set (GenerateGeometryShaderCode e g api hc uid)"
proof -
  have "TAB # ''if (i == 0) first = ''
       @ (if primitive_type uid = Lines then ''l''
          else if primitive_type uid = Points then ''ll'' else ''f'') @ '';\<newline>''
     \<in> set (gs_expand e g api hc uid)"
    using assms by (simp add: gs_expand_def EmitVertex_def)
  then show ?thesis
    by (simp add: GenerateGeometryShaderCode_def)
qed

lemma first_re_emitted:
  assumes "wireframe hc"
  shows "suffix
     ([TAB # ''}\<newline>'']
      @ EmitVertex e hc uid ''first'' api True (bEnablePixelLighting (g_ActiveConfig g)) False
      @ [if api = D3D then TAB # ''output.RestartStrip();\<newline>''
         else TAB # ''EndPrimitive();\<newline>'']
      @ (if multi_layer hc \<and> \<not> backend_gs_instancing hc then [TAB # ''}\<newline>''] else [])
      @ [''}\<newline>''])
     (GenerateGeometryShaderCode e g api hc uid)"
proof -
  have "gs_tail e g api hc uid =
     [TAB # ''}\<newline>'']
      @ EmitVertex e hc uid ''first'' api True (bEnablePixelLighting (g_ActiveConfig g)) False
      @ [if api = D3D then TAB # ''output.RestartStrip();\<newline>''
         else TAB # ''EndPrimitive();\<newline>'']
      @ (if multi_layer hc \<and> \<not> backend_gs_instancing hc then [TAB # ''}\<newline>''] else [])
      @ [''}\<newline>'']"
    using assms by (cases api) (simp_all add: gs_tail_def EndPrimitive_def)
  moreover have "suffix (gs_tail e g api hc uid) (GenerateGeometryShaderCode e g api hc uid)"
    unfolding GenerateGeometryShaderCode_def suffix_def by (metis append.assoc)
  ultimately show ?thesis by simp
qed

lemma closing_vertex_chunks:
  "(if api = D3D then TAB # ''ps.o = first;\<newline>''
    else TAB # ''gl_Position = first.pos;\<newline>'')
     \<in> set (EmitVertex e hc uid ''first'' api True pl False)
   \<and> last (EmitVertex e hc uid ''first'' api True pl False)
       = (if api = D3D then TAB # ''output.Append(ps);\<newline>''
          else TAB # ''EmitVertex();\<newline>'')"
  by (cases api) (simp_all add: EmitVertex_def)


lemma vertex_out_wireframe: "vertex_out p True = vertex_out p False + 1"
  by (simp add: vertex_out_def)

text \<open>
  C6. In wireframe mode the body declares \<^verbatim>\<open>first\<close>, remembers in it the first vertex
  emitted for input vertex 0 (\<^verbatim>\<open>if (i == 0) first = ...\<close>), and after the end of the
  loop over the input vertices emits \<^verbatim>\<open>first\<close> once more, then ends the primitive. The
  vertex-out count, and with it the declared maximum, is one more than without wireframe.
\<close>

theorem wireframe_closing_vertex:
  assumes "wireframe hc"
  shows "TAB # ''VS_OUTPUT first;\<newline>'' \<in> set (GenerateGeometryShaderCode e g api hc uid)
   \<and> TAB # ''if (i == 0) first = ''
         @ (if primitive_type uid = Lines then ''l''
            else if primitive_type uid = Points then ''ll'' else ''f'') @ '';\<newline>''
       \<in> set (GenerateGeometryShaderCode e g api hc uid)
   \<and> sublist
        (TAB # ''if (i == 0) first = ''
           @ (if primitive_type uid = Lines then ''l''
              else if primitive_type uid = Points then ''ll'' else ''f'') @ '';\<newline>'')
        (GetBuffer (GenerateGeometryShaderCode e g api hc uid))
   \<and> suffix
        ([TAB # ''}\<newline>'']
         @ EmitVertex e hc uid ''first'' api True (bEnablePixelLighting (g_ActiveConfig g)) False
         @ [if api = D3D then TAB # ''output.RestartStrip();\<newline>''
            else TAB # ''EndPrimitive();\<newline>'']
         @ (if multi_layer hc \<and> \<not> backend_gs_instancing hc then [TAB # ''}\<newline>''] else [])
         @ [''}\<newline>''])
        (GenerateGeometryShaderCode e g api hc uid)
   \<and> (if api = D3D then TAB # ''ps.o = first;\<newline>''
       else TAB # ''gl_Position = first.pos;\<newline>'')
       \<in> set (EmitVertex e hc uid ''first'' api True (bEnablePixelLighting (g_ActiveConfig g)) False)
   \<and> last (EmitVertex e hc uid ''first'' api True (bEnablePixelLighting (g_ActiveConfig g)) False)
       = (if api = D3D then TAB # ''output.Append(ps);\<newline>''
          else TAB # ''EmitVertex();\<newline>'')
   \<and> vertex_out (primitive_type uid) (wireframe hc)
       = vertex_out (primitive_type uid) False + 1
   \<and> (api \<noteq> D3D \<longrightarrow>
        GenerateGeometryShaderCode e g api hc uid ! 1 =
          ''layout(line_strip, max_vertices = ''
            @ fmt_d (if backend_gs_instancing hc
                     then vertex_out (primitive_type uid) False + 1
                     else (vertex_out (primitive_type uid) False + 1) * layers hc)
            @ '') out;\<newline>'')
   \<and> (api = D3D \<longrightarrow>
        (if backend_gs_instancing hc
         then ''[maxvertexcount('' @ fmt_d (vertex_out (primitive_type uid) False + 1)
                @ '')]\<newline>[instance('' @ fmt_d (layers hc) @ '')]\<newline>''
         else ''[maxvertexcount(''
                @ fmt_d ((vertex_out (primitive_type uid) False + 1) * layers hc)
                @ '')]\<newline>'')
          \<in> set (GenerateGeometryShaderCode e g api hc uid))"
proof -
  have vo: "vertex_out (primitive_type uid) (wireframe hc)
       = vertex_out (primitive_type uid) False + 1"
    using assms by (simp add: vertex_out_wireframe)
  show ?thesis
    using assms first_declared [OF assms, of e g api uid]
      first_remembered [OF assms, of uid e g api]
      in_GetBuffer [OF first_remembered [OF assms, of uid e g api]]
      first_re_emitted [OF assms, of e uid api g]
      closing_vertex_chunks [of api e hc uid "bEnablePixelLighting (g_ActiveConfig g)"]
      max_vertices_written [of api e g hc uid] maxvertexcount_written [of api hc uid e g]
    unfolding vo [symmetric]
    by simp
qed

theorem wireframe_closing_vertex_witness:
  "TAB # ''if (i == 0) first = l;\<newline>''
     \<in> set (GenerateGeometryShaderCode plain_emitters plain_ambient OpenGL
           (mono_config\<lparr>wireframe := True\<rparr>) \<lparr>numTexGens = 2, primitive_type = Lines\<rparr>)
   \<and> suffix
       [TAB # ''}\<newline>'', TAB # ''gl_Position = first.pos;\<newline>'',
        ''  ps.pos = first.pos;\<newline>'', ''  ps.colors_0 = first.colors_0;\<newline>'',
        TAB # ''EmitVertex();\<newline>'', TAB # ''EndPrimitive();\<newline>'', ''}\<newline>'']
       (GenerateGeometryShaderCode plain_emitters plain_ambient OpenGL
           (mono_config\<lparr>wireframe := True\<rparr>) \<lparr>numTexGens = 2, primitive_type = Lines\<rparr>)
   \<and> GenerateGeometryShaderCode plain_emitters plain_ambient OpenGL
         (mono_config\<lparr>wireframe := True\<rparr>) \<lparr>numTexGens = 2, primitive_type = Lines\<rparr> ! 1
       = ''layout(line_strip, max_vertices = 5) out;\<newline>''"
  using wireframe_closing_vertex [where hc = "mono_config\<lparr>wireframe := True\<rparr>"
      and api = OpenGL and uid = "\<lparr>numTexGens = 2, primitive_type = Lines\<rparr>"
      and g = plain_ambient and e = plain_emitters]
  by (simp add: mono_config_def multi_layer_def layers_def vertex_out_def EmitVertex_def
      plain_emitters_def fmt_d_def string_of_nat.simps digit_def)

subsection \<open>The eye loop of the avatar variant\<close>

lemma eye_loop_avatar_members:
  assumes "emitters_never e is_eye_loop"
  shows "filter is_eye_loop (avatar_members e api q) = []"
  by (simp add: avatar_members_def never_simps [OF assms])

lemma eye_loop_avatar_assign: "filter is_eye_loop (avatar_assign a b) = []"
  by (simp add: avatar_assign_def is_eye_loop_def suffix_to_prefix)

lemma eye_loop_av_layout: "filter is_eye_loop (av_layout_parameters p api hc) = []"
  by (simp add: av_layout_parameters_def is_eye_loop_def)

lemma eye_loop_av_uniforms:
  assumes "emitters_never e is_eye_loop"
  shows "filter is_eye_loop (av_uniforms e g api) = []"
  by (simp add: av_uniforms_def eye_loop_avatar_members [OF assms] is_eye_loop_def)

lemma eye_loop_av_interface:
  assumes "emitters_never e is_eye_loop"
  shows "filter is_eye_loop (av_interface e g p api hc) = []"
  by (simp add: av_interface_def eye_loop_avatar_members [OF assms] is_eye_loop_def)

lemma eye_loop_av_primitive_setup:
  "filter is_eye_loop (av_primitive_setup e p api) = []"
  by (simp add: av_primitive_setup_def eye_loop_avatar_assign line_offset_chunk_def
      point_offset_chunk_def is_eye_loop_def)

lemma is_eye_loop_avatar: "is_eye_loop avatar_eye_loop"
  by (simp add: avatar_eye_loop_def is_eye_loop_def suffix_to_prefix)

lemma eye_loop_av_layer_select:
  "filter is_eye_loop (av_layer_select hc) =
     (if multi_layer hc \<and> \<not> backend_gs_instancing hc then [avatar_eye_loop] else [])"
  by (simp add: av_layer_select_def is_eye_loop_avatar)
     (simp add: is_eye_loop_def eye_binding_def)

lemma eye_loop_av_vertex_loop_head:
  "filter is_eye_loop (av_vertex_loop_head p api hc) = []"
  by (simp add: av_vertex_loop_head_def eye_loop_avatar_assign vertex_loop_def is_eye_loop_def)

lemma eye_loop_av_layer_offset: "filter is_eye_loop (av_layer_offset e api hc) = []"
  by (simp add: av_layer_offset_def is_eye_loop_def)

lemma eye_loop_avatar_point_nudges: "filter is_eye_loop (avatar_point_nudges e) = []"
  by (simp add: avatar_point_nudges_def is_eye_loop_def)

lemma eye_loop_av_expand:
  assumes "emitters_never e is_eye_loop"
  shows "filter is_eye_loop (av_expand e g p api hc) = []"
  by (simp add: av_expand_def eye_loop_EmitVertex [OF assms] eye_loop_line_nudges
      eye_loop_avatar_point_nudges is_eye_loop_def)

lemma eye_loops_of_avatar:
  assumes "emitters_never e is_eye_loop"
  shows "filter is_eye_loop (GenerateAvatarGeometryShaderCode e g p api hc) =
     (if multi_layer hc \<and> \<not> backend_gs_instancing hc then [avatar_eye_loop] else [])"
  by (simp add: GenerateAvatarGeometryShaderCode_def eye_loop_av_layout
      eye_loop_av_uniforms [OF assms] eye_loop_av_interface [OF assms]
      eye_loop_av_primitive_setup eye_loop_av_layer_select eye_loop_av_vertex_loop_head
      eye_loop_av_layer_offset eye_loop_av_expand [OF assms] eye_loop_tail [OF assms])

lemma avatar_eye_loop_written:
  "multi_layer hc \<Longrightarrow> \<not> backend_gs_instancing hc \<Longrightarrow>
   avatar_eye_loop \<in> set (GenerateAvatarGeometryShaderCode e g p api hc)"
  by (simp add: GenerateAvatarGeometryShaderCode_def av_layer_select_def)

lemma avatar_max_vertices_written:
  "api = OpenGL \<Longrightarrow> \<not> backend_gs_instancing hc \<Longrightarrow>
   GenerateAvatarGeometryShaderCode e g p api hc ! 1 =
     ''layout('' @ (if wireframe hc then ''line'' else ''triangle'')
       @ ''_strip, max_vertices = '' @ fmt_d (vertex_out p (wireframe hc) * layers hc)
       @ '') out;\<newline>''"
  by (simp add: GenerateAvatarGeometryShaderCode_def av_layout_parameters_def)

lemma avatar_maxvertexcount_written:
  assumes "api \<noteq> OpenGL" and "\<not> backend_gs_instancing hc"
  shows "''[maxvertexcount('' @ fmt_d (vertex_out p (wireframe hc) * layers hc) @ '')]\<newline>''
     \<in> set (GenerateAvatarGeometryShaderCode e g p api hc)"
proof -
  have "''[maxvertexcount('' @ fmt_d (vertex_out p (wireframe hc) * layers hc) @ '')]\<newline>''
     \<in> set (av_interface e g p api hc)"
    using assms by (simp add: av_interface_def)
  then show ?thesis
    by (simp add: GenerateAvatarGeometryShaderCode_def)
qed

text \<open>
  C10. In the avatar variant, when stereo or more_layers is set and instancing is not, the
  software loop over the eyes is written with the constant bound 2, whatever the layer
  count, while the declaration of the same output (\<^verbatim>\<open>max_vertices\<close> for OpenGL,
  \<^verbatim>\<open>maxvertexcount\<close> otherwise) carries \<open>vertex_out * layers\<close>. It is the only loop
  over the eyes in the output, provided the helpers of other translation units write none.
\<close>

theorem avatar_eye_loop_bound:
  assumes "stereo hc \<or> more_layers hc \<noteq> 0" and "\<not> backend_gs_instancing hc"
  shows "TAB # ''for (int eye = 0; eye < 2; ++eye) {\<newline>''
       \<in> set (GenerateAvatarGeometryShaderCode e g p api hc)
   \<and> (emitters_never e is_eye_loop \<longrightarrow>
        filter is_eye_loop (GenerateAvatarGeometryShaderCode e g p api hc)
          = [TAB # ''for (int eye = 0; eye < 2; ++eye) {\<newline>''])
   \<and> layers hc = more_layers hc * 2 + (if stereo hc then 1 else 0) + 1
   \<and> (api = OpenGL \<longrightarrow>
        GenerateAvatarGeometryShaderCode e g p api hc ! 1 =
          ''layout('' @ (if wireframe hc then ''line'' else ''triangle'')
            @ ''_strip, max_vertices = '' @ fmt_d (vertex_out p (wireframe hc) * layers hc)
            @ '') out;\<newline>'')
   \<and> (api \<noteq> OpenGL \<longrightarrow>
        ''[maxvertexcount('' @ fmt_d (vertex_out p (wireframe hc) * layers hc) @ '')]\<newline>''
          \<in> set (GenerateAvatarGeometryShaderCode e g p api hc))"
  using assms avatar_eye_loop_written [of hc e g p api]
    eye_loops_of_avatar [of e g p api hc]
    avatar_max_vertices_written [of api hc e g p]
    avatar_maxvertexcount_written [of api hc p e g]
  by (simp add: avatar_eye_loop_def layers_def multi_layer_def)

theorem avatar_eye_loop_bound_witness:
  "layers (mono_config\<lparr>stereo := True, more_layers := 1\<rparr>) = 4
   \<and> TAB # ''for (int eye = 0; eye < 2; ++eye) {\<newline>''
       \<in> set (GenerateAvatarGeometryShaderCode plain_emitters plain_ambient Triangles OpenGL
             (mono_config\<lparr>stereo := True, more_layers := 1\<rparr>))
   \<and> GenerateAvatarGeometryShaderCode plain_emitters plain_ambient Triangles OpenGL
         (mono_config\<lparr>stereo := True, more_layers := 1\<rparr>) ! 1
       = ''layout(triangle_strip, max_vertices = 16) out;\<newline>''"
  using avatar_eye_loop_bound [where hc = "mono_config\<lparr>stereo := True, more_layers := 1\<rparr>"
      and api = OpenGL and p = Triangles and g = plain_ambient and e = plain_emitters]
  by (simp add: mono_config_def layers_def vertex_out_def
      fmt_d_def string_of_nat.simps digit_def)

subsection \<open>Texture coordinate nudges\<close>

lemma nudge_EmitVertex:
  assumes "emitters_never e is_nudge"
  shows "filter is_nudge (EmitVertex e hc uid v api wire pl fv) = []"
  by (simp add: EmitVertex_def never_simps [OF assms] is_nudge_def flip_line_def suffix_to_prefix)

lemma nudge_layout: "filter is_nudge (gs_layout_parameters api hc uid) = []"
  by (simp add: gs_layout_parameters_def is_nudge_def suffix_to_prefix)

lemma nudge_uniforms:
  assumes "emitters_never e is_nudge"
  shows "filter is_nudge (gs_uniforms e g api uid) = []"
  using never_lighting [OF assms]
  by (simp add: gs_uniforms_def never_simps [OF assms] is_nudge_def suffix_to_prefix)

lemma nudge_interface:
  assumes "emitters_never e is_nudge"
  shows "filter is_nudge (gs_interface e g api hc uid) = []"
  by (simp add: gs_interface_def never_simps [OF assms] is_nudge_def suffix_to_prefix)

lemma nudge_primitive_setup:
  assumes "emitters_never e is_nudge"
  shows "filter is_nudge (gs_primitive_setup e g api uid) = []"
  by (simp add: gs_primitive_setup_def never_simps [OF assms] line_offset_chunk_def
      point_offset_chunk_def is_nudge_def suffix_to_prefix)

lemma nudge_layer_select: "filter is_nudge (gs_layer_select hc) = []"
  by (simp add: gs_layer_select_def is_nudge_def eye_binding_def eye_loop_def suffix_to_prefix)

lemma nudge_vertex_loop_head:
  assumes "emitters_never e is_nudge"
  shows "filter is_nudge (gs_vertex_loop_head e g api hc uid) = []"
  by (simp add: gs_vertex_loop_head_def never_simps [OF assms] vertex_loop_def is_nudge_def
      suffix_to_prefix)

lemma nudge_layer_offset: "filter is_nudge (gs_layer_offset e api hc) = []"
  by (simp add: gs_layer_offset_def is_nudge_def suffix_to_prefix)

lemma nudge_tail:
  assumes "emitters_never e is_nudge"
  shows "filter is_nudge (gs_tail e g api hc uid) = []"
  by (simp add: gs_tail_def EndPrimitive_def nudge_EmitVertex [OF assms] is_nudge_def
      suffix_to_prefix)

lemma length_filter_concat_map:
  "(\<And>i. i \<in> set xs \<Longrightarrow> length (filter P (f i)) = k) \<Longrightarrow>
   length (filter P (concat (map f xs))) = length xs * k"
  by (induction xs) simp_all

lemma nudge_line_nudges:
  "length (filter is_nudge (line_texgen_nudges e n)) = unat n"
  unfolding line_texgen_nudges_def
  by (subst length_filter_concat_map [where k = 1])
     (simp_all add: is_nudge_def suffix_to_prefix)

lemma nudge_point_nudges:
  "length (filter is_nudge (point_texgen_nudges e n)) = unat n * 3"
  unfolding point_texgen_nudges_def
  by (subst length_filter_concat_map [where k = 3])
     (simp_all add: is_nudge_def suffix_to_prefix)

lemma nudge_expand:
  assumes "emitters_never e is_nudge"
  shows "length (filter is_nudge (gs_expand e g api hc uid)) =
     (if primitive_type uid = Lines then unat (numTexGens uid)
      else if primitive_type uid = Points then unat (numTexGens uid) * 3 else 0)"
  by (simp add: gs_expand_def nudge_EmitVertex [OF assms] nudge_line_nudges nudge_point_nudges
      is_nudge_def suffix_to_prefix)

lemma nudges_of_generator:
  assumes "emitters_never e is_nudge"
  shows "length (filter is_nudge (GenerateGeometryShaderCode e g api hc uid)) =
     (if primitive_type uid = Lines then unat (numTexGens uid)
      else if primitive_type uid = Points then unat (numTexGens uid) * 3 else 0)"
  by (simp add: GenerateGeometryShaderCode_def nudge_layout nudge_uniforms [OF assms]
      nudge_interface [OF assms] nudge_primitive_setup [OF assms] nudge_layer_select
      nudge_vertex_loop_head [OF assms] nudge_layer_offset nudge_expand [OF assms]
      nudge_tail [OF assms])


lemma line_nudge_written:
  assumes "primitive_type uid = Lines" and "i < unat (numTexGens uid)"
  shows "TAB # TAB # ''r.tex'' @ fmt_d (word_of_nat i) @ ''.x += texOffset;\<newline>''
     \<in> set (GenerateGeometryShaderCode e g api hc uid)"
proof -
  have "TAB # TAB # ''r.tex'' @ fmt_d (word_of_nat i) @ ''.x += texOffset;\<newline>''
     \<in> set (line_texgen_nudges e (numTexGens uid))"
    using assms(2) by (auto simp: line_texgen_nudges_def)
  then have "TAB # TAB # ''r.tex'' @ fmt_d (word_of_nat i) @ ''.x += texOffset;\<newline>''
     \<in> set (gs_expand e g api hc uid)"
    using assms(1) by (simp add: gs_expand_def)
  then show ?thesis
    by (simp add: GenerateGeometryShaderCode_def)
qed

lemma point_nudges_written:
  assumes "primitive_type uid = Points" and "i < unat (numTexGens uid)"
  shows "{TAB # TAB # ''ul.tex'' @ fmt_d (word_of_nat i) @ ''.xy += float2(0,1) * texOffset;\<newline>'',
          TAB # TAB # ''ur.tex'' @ fmt_d (word_of_nat i) @ ''.xy += texOffset;\<newline>'',
          TAB # TAB # ''lr.tex'' @ fmt_d (word_of_nat i) @ ''.xy += float2(1,0) * texOffset;\<newline>''}
     \<subseteq> set (GenerateGeometryShaderCode e g api hc uid)"
proof -
  have "{TAB # TAB # ''ul.tex'' @ fmt_d (word_of_nat i) @ ''.xy += float2(0,1) * texOffset;\<newline>'',
          TAB # TAB # ''ur.tex'' @ fmt_d (word_of_nat i) @ ''.xy += texOffset;\<newline>'',
          TAB # TAB # ''lr.tex'' @ fmt_d (word_of_nat i) @ ''.xy += float2(1,0) * texOffset;\<newline>''}
     \<subseteq> set (point_texgen_nudges e (numTexGens uid))"
    using assms(2) by (auto simp: point_texgen_nudges_def)
  then have "{TAB # TAB # ''ul.tex'' @ fmt_d (word_of_nat i) @ ''.xy += float2(0,1) * texOffset;\<newline>'',
          TAB # TAB # ''ur.tex'' @ fmt_d (word_of_nat i) @ ''.xy += texOffset;\<newline>'',
          TAB # TAB # ''lr.tex'' @ fmt_d (word_of_nat i) @ ''.xy += float2(1,0) * texOffset;\<newline>''}
     \<subseteq> set (gs_expand e g api hc uid)"
    using assms(1) by (simp add: gs_expand_def)
  then show ?thesis
    by (simp add: GenerateGeometryShaderCode_def)
qed

lemma no_texgen_no_loop:
  "line_texgen_nudges e 0 = [] \<and> point_texgen_nudges e 0 = []"
  by (simp add: line_texgen_nudges_def point_texgen_nudges_def)

lemma plain_never_nudge: "emitters_never plain_emitters is_nudge"
  by (simp add: emitters_never_def plain_emitters_def is_nudge_def)

text \<open>
  C7. The number of statements that nudge a texture coordinate by \<^verbatim>\<open>texOffset\<close> is
  linear in the number of texture generators: one per generator for lines (vertex
  \<^verbatim>\<open>r\<close>), three per generator for points (vertices \<^verbatim>\<open>ul\<close>, \<^verbatim>\<open>ur\<close>, \<^verbatim>\<open>lr\<close>),
  none for triangles; each generator index below the count has its statements. With no
  texture generator the two loops write nothing and the output has no such statement.
  (The count is over the whole output; the helpers of other translation units are assumed
  not to write such statements.)
\<close>

theorem texgen_nudges_linear:
  "(emitters_never e is_nudge \<longrightarrow>
      length (filter is_nudge (GenerateGeometryShaderCode e g api hc uid)) =
        (if primitive_type uid = Lines then unat (numTexGens uid)
         else if primitive_type uid = Points then unat (numTexGens uid) * 3 else 0))
   \<and> (primitive_type uid = Lines \<longrightarrow>
        (\<forall>i < unat (numTexGens uid).
           TAB # TAB # ''r.tex'' @ fmt_d (word_of_nat i) @ ''.x += texOffset;\<newline>''
             \<in> set (GenerateGeometryShaderCode e g api hc uid)))
   \<and> (primitive_type uid = Points \<longrightarrow>
        (\<forall>i < unat (numTexGens uid).
           {TAB # TAB # ''ul.tex'' @ fmt_d (word_of_nat i)
              @ ''.xy += float2(0,1) * texOffset;\<newline>'',
            TAB # TAB # ''ur.tex'' @ fmt_d (word_of_nat i) @ ''.xy += texOffset;\<newline>'',
            TAB # TAB # ''lr.tex'' @ fmt_d (word_of_nat i)
              @ ''.xy += float2(1,0) * texOffset;\<newline>''}
             \<subseteq> set (GenerateGeometryShaderCode e g api hc uid)))
   \<and> (numTexGens uid = 0 \<longrightarrow>
        line_texgen_nudges e (numTexGens uid) = []
        \<and> point_texgen_nudges e (numTexGens uid) = []
        \<and> (emitters_never e is_nudge \<longrightarrow>
             filter is_nudge (GenerateGeometryShaderCode e g api hc uid) = []))"
proof -
  have count: "emitters_never e is_nudge \<longrightarrow>
      length (filter is_nudge (GenerateGeometryShaderCode e g api hc uid)) =
       (if primitive_type uid = Lines then unat (numTexGens uid)
        else if primitive_type uid = Points then unat (numTexGens uid) * 3 else 0)"
    using nudges_of_generator [of e g api hc uid] by blast
  have zero: "numTexGens uid = 0 \<and> emitters_never e is_nudge \<longrightarrow>
        filter is_nudge (GenerateGeometryShaderCode e g api hc uid) = []"
  proof
    assume a: "numTexGens uid = 0 \<and> emitters_never e is_nudge"
    with count have "length (filter is_nudge (GenerateGeometryShaderCode e g api hc uid)) = 0"
      by simp
    then show "filter is_nudge (GenerateGeometryShaderCode e g api hc uid) = []"
      by simp
  qed
  show ?thesis
    using count zero line_nudge_written [of uid _ e g api hc]
      point_nudges_written [of uid _ e g api hc] no_texgen_no_loop [of e]
    by simp
qed

theorem texgen_nudges_linear_witness:
  "length (filter is_nudge (GenerateGeometryShaderCode plain_emitters plain_ambient OpenGL
       mono_config \<lparr>numTexGens = 2, primitive_type = Lines\<rparr>)) = 2
   \<and> length (filter is_nudge (GenerateGeometryShaderCode plain_emitters plain_ambient OpenGL
       mono_config \<lparr>numTexGens = 2, primitive_type = Points\<rparr>)) = 6
   \<and> filter is_nudge (GenerateGeometryShaderCode plain_emitters plain_ambient OpenGL
       mono_config \<lparr>numTexGens = 0, primitive_type = Points\<rparr>) = []"
  using plain_never_nudge
    texgen_nudges_linear [where e = plain_emitters and api = OpenGL and hc = mono_config
      and uid = "\<lparr>numTexGens = 2, primitive_type = Lines\<rparr>" and g = plain_ambient]
    texgen_nudges_linear [where e = plain_emitters and api = OpenGL and hc = mono_config
      and uid = "\<lparr>numTexGens = 2, primitive_type = Points\<rparr>" and g = plain_ambient]
    texgen_nudges_linear [where e = plain_emitters and api = OpenGL and hc = mono_config
      and uid = "\<lparr>numTexGens = 0, primitive_type = Points\<rparr>" and g = plain_ambient]
  by simp

subsection \<open>Vulkan and OpenGL\<close>

lemma flip_added_refl: "flip_added out out"
  by (induction out) (auto intro: flip_added.intros)

lemma flip_added_append:
  "flip_added a a' \<Longrightarrow> flip_added b b' \<Longrightarrow> flip_added (a @ b) (a' @ b')"
  by (induction rule: flip_added.induct) (auto intro: flip_added.intros)

lemma flip_EmitVertex:
  assumes "\<not> backend_depth_clamp hc"
  shows "flip_added (EmitVertex e hc uid v OpenGL wire pl fv)
     (EmitVertex e hc uid v Vulkan wire pl fv)"
proof -
  have "is_position_write (TAB # ''gl_Position = '' @ v @ ''.pos;\<newline>'')"
    by (simp add: is_position_write_def)
  then have "flip_added
     ((TAB # ''gl_Position = '' @ v @ ''.pos;\<newline>'')
        # AssignVSOutputMembers e ''ps'' v (numTexGens uid) pl @ [TAB # ''EmitVertex();\<newline>''])
     ((TAB # ''gl_Position = '' @ v @ ''.pos;\<newline>'') # flip_line
        # AssignVSOutputMembers e ''ps'' v (numTexGens uid) pl @ [TAB # ''EmitVertex();\<newline>''])"
    by (intro flip_here flip_added_refl)
  then show ?thesis
    using assms by (simp add: EmitVertex_def flip_same)
qed

lemma flip_EndPrimitive:
  assumes "\<not> backend_depth_clamp hc"
  shows "flip_added (EndPrimitive e hc uid OpenGL wire pl) (EndPrimitive e hc uid Vulkan wire pl)"
  by (simp add: EndPrimitive_def flip_added_refl)
     (intro impI flip_added_append flip_EmitVertex [OF assms] flip_added_refl)

lemma flip_expand:
  assumes "\<not> backend_depth_clamp hc"
  shows "flip_added (gs_expand e g OpenGL hc uid) (gs_expand e g Vulkan hc uid)"
  by (simp add: gs_expand_def)
     (intro conjI impI flip_same flip_added_append flip_EmitVertex [OF assms] flip_added_refl)

lemma flip_tail:
  assumes "\<not> backend_depth_clamp hc"
  shows "flip_added (gs_tail e g OpenGL hc uid) (gs_tail e g Vulkan hc uid)"
  unfolding gs_tail_def
  by (intro flip_added_append flip_EndPrimitive [OF assms] flip_added_refl)

text \<open>
  With neither VR nor depth clamp, the Vulkan output is the OpenGL output with the line
  that negates \<^verbatim>\<open>gl_Position.y\<close> added after assignments to \<^verbatim>\<open>gl_Position\<close>, when
  \<^verbatim>\<open>GenerateVSOutputMembers\<close>, which takes the API, writes the same for both.
\<close>

lemma vulkan_flip_added:
  assumes "\<not> vr hc" and "\<not> backend_depth_clamp hc"
    and "GenerateVSOutputMembers e Vulkan = GenerateVSOutputMembers e OpenGL"
  shows "flip_added (GenerateGeometryShaderCode e g OpenGL hc uid)
     (GenerateGeometryShaderCode e g Vulkan hc uid)"
proof -
  have "gs_layout_parameters Vulkan hc uid = gs_layout_parameters OpenGL hc uid"
    by (simp add: gs_layout_parameters_def)
  moreover have "gs_uniforms e g Vulkan uid = gs_uniforms e g OpenGL uid"
    using assms(3) by (simp add: gs_uniforms_def)
  moreover have "gs_interface e g Vulkan hc uid = gs_interface e g OpenGL hc uid"
    using assms(3) by (simp add: gs_interface_def)
  moreover have "gs_primitive_setup e g Vulkan uid = gs_primitive_setup e g OpenGL uid"
    by (simp add: gs_primitive_setup_def)
  moreover have "gs_vertex_loop_head e g Vulkan hc uid = gs_vertex_loop_head e g OpenGL hc uid"
    by (simp add: gs_vertex_loop_head_def)
  moreover have "gs_layer_offset e Vulkan hc = gs_layer_offset e OpenGL hc"
    using assms(1) by (simp add: gs_layer_offset_def)
  ultimately show ?thesis
    unfolding GenerateGeometryShaderCode_def
    by (simp only:)
       (intro flip_added_append flip_expand [OF assms(2)] flip_tail [OF assms(2)] flip_added_refl)
qed

text \<open>
  C8. The Vulkan output is to differ from the OpenGL output by the line that negates
  \<^verbatim>\<open>gl_Position.y\<close> only. The generator breaks this at a host configuration with
  depth clamp: there the OpenGL branch of \<^verbatim>\<open>EmitVertex\<close> assigns
  \<^verbatim>\<open>gl_ClipDistance[0]\<close> and \<^verbatim>\<open>gl_ClipDistance[1]\<close> at each emitted vertex and the
  Vulkan branch does not. With VR, the OpenGL output assigns \<^verbatim>\<open>gl_Layer\<close> and the
  Vulkan output does not.
\<close>

theorem vulkan_omits_clip_distance:
  "EmitVertex inline_emitters (mono_config\<lparr>backend_depth_clamp := True\<rparr>)
       \<lparr>numTexGens = 0, primitive_type = Triangles\<rparr> ''f'' OpenGL False False True
     = [TAB # ''gl_Position = f.pos;\<newline>'',
        TAB # ''gl_ClipDistance[0] = f.clipDist0;\<newline>'',
        TAB # ''gl_ClipDistance[1] = f.clipDist1;\<newline>'',
        TAB # ''ps.pos = f.pos;\<newline>'', TAB # ''ps.colors_0 = f.colors_0;\<newline>'',
        TAB # ''EmitVertex();\<newline>'']
   \<and> EmitVertex inline_emitters (mono_config\<lparr>backend_depth_clamp := True\<rparr>)
       \<lparr>numTexGens = 0, primitive_type = Triangles\<rparr> ''f'' Vulkan False False True
     = [TAB # ''gl_Position = f.pos;\<newline>'',
        TAB # ''gl_Position.y = -gl_Position.y;\<newline>'',
        TAB # ''ps.pos = f.pos;\<newline>'', TAB # ''ps.colors_0 = f.colors_0;\<newline>'',
        TAB # ''EmitVertex();\<newline>'']
   \<and> TAB # ''gl_ClipDistance[0] = f.clipDist0;\<newline>''
       \<in> set (GenerateGeometryShaderCode inline_emitters plain_ambient OpenGL
             (mono_config\<lparr>backend_depth_clamp := True\<rparr>)
             \<lparr>numTexGens = 0, primitive_type = Triangles\<rparr>)
   \<and> TAB # ''gl_ClipDistance[0] = f.clipDist0;\<newline>''
       \<notin> set (GenerateGeometryShaderCode inline_emitters plain_ambient Vulkan
             (mono_config\<lparr>backend_depth_clamp := True\<rparr>)
             \<lparr>numTexGens = 0, primitive_type = Triangles\<rparr>)
   \<and> TAB # ''gl_ClipDistance[1] = f.clipDist1;\<newline>''
       \<in> set (GenerateGeometryShaderCode inline_emitters plain_ambient OpenGL
             (mono_config\<lparr>backend_depth_clamp := True\<rparr>)
             \<lparr>numTexGens = 0, primitive_type = Triangles\<rparr>)
   \<and> TAB # ''gl_ClipDistance[1] = f.clipDist1;\<newline>''
       \<notin> set (GenerateGeometryShaderCode inline_emitters plain_ambient Vulkan
             (mono_config\<lparr>backend_depth_clamp := True\<rparr>)
             \<lparr>numTexGens = 0, primitive_type = Triangles\<rparr>)
   \<and> TAB # ''gl_Layer = eye;\<newline>''
       \<in> set (GenerateGeometryShaderCode inline_emitters plain_ambient OpenGL
             (mono_config\<lparr>stereo := True, vr := True\<rparr>)
             \<lparr>numTexGens = 0, primitive_type = Triangles\<rparr>)
   \<and> TAB # ''gl_Layer = eye;\<newline>''
       \<notin> set (GenerateGeometryShaderCode inline_emitters plain_ambient Vulkan
             (mono_config\<lparr>stereo := True, vr := True\<rparr>)
             \<lparr>numTexGens = 0, primitive_type = Triangles\<rparr>)"
  by (simp add: gs_all inline_emitters_def)

subsection \<open>Line expansion\<close>

lemma line_offset_written:
  assumes "primitive_type uid = Lines"
  shows "line_offset_chunk e
       (TAB # ''float2 to = abs(end.pos.xy / end.pos.w - start.pos.xy / start.pos.w);\<newline>'')
     \<in> set (GenerateGeometryShaderCode e g api hc uid)"
proof -
  have "line_offset_chunk e
       (TAB # ''float2 to = abs(end.pos.xy / end.pos.w - start.pos.xy / start.pos.w);\<newline>'')
     \<in> set (gs_primitive_setup e g api uid)"
    using assms by (simp add: gs_primitive_setup_def)
  then show ?thesis
    by (simp add: GenerateGeometryShaderCode_def)
qed

lemma line_sides_written:
  assumes "primitive_type uid = Lines"
  shows "sublist
     ([TAB # ''VS_OUTPUT l = f;\<newline>'' @ TAB # ''VS_OUTPUT r = f;\<newline>'',
       TAB # ''l.pos.xy -= offset * l.pos.w;\<newline>''
         @ TAB # ''r.pos.xy += offset * r.pos.w;\<newline>''])
     (GenerateGeometryShaderCode e g api hc uid)
   \<and> sublist
     (EmitVertex e hc uid ''l'' api (wireframe hc) (bEnablePixelLighting (g_ActiveConfig g)) True
      @ EmitVertex e hc uid ''r'' api (wireframe hc) (bEnablePixelLighting (g_ActiveConfig g)) False
      @ [TAB # ''}\<newline>''])
     (GenerateGeometryShaderCode e g api hc uid)"
proof -
  let ?A = "gs_layout_parameters api hc uid @ gs_uniforms e g api uid
    @ gs_interface e g api hc uid @ gs_primitive_setup e g api uid @ gs_layer_select hc
    @ gs_vertex_loop_head e g api hc uid @ gs_layer_offset e api hc"
  let ?sides = "[TAB # ''VS_OUTPUT l = f;\<newline>'' @ TAB # ''VS_OUTPUT r = f;\<newline>'',
       TAB # ''l.pos.xy -= offset * l.pos.w;\<newline>''
         @ TAB # ''r.pos.xy += offset * r.pos.w;\<newline>'']"
  let ?mid = "[TAB # ''if ('' @ I_TEXOFFSET e @ ''[2] != 0) {\<newline>'',
         TAB # ''float texOffset = 1.0 / float('' @ I_TEXOFFSET e @ ''[2]);\<newline>'']
        @ line_texgen_nudges e (numTexGens uid) @ [TAB # ''}\<newline>'']"
  let ?emit = "EmitVertex e hc uid ''l'' api (wireframe hc) (bEnablePixelLighting (g_ActiveConfig g)) True
      @ EmitVertex e hc uid ''r'' api (wireframe hc) (bEnablePixelLighting (g_ActiveConfig g)) False
      @ [TAB # ''}\<newline>'']"
  let ?Z = "EndPrimitive e hc uid api (wireframe hc) (bEnablePixelLighting (g_ActiveConfig g))
     @ (if multi_layer hc \<and> \<not> backend_gs_instancing hc then [TAB # ''}\<newline>''] else [])
     @ [''}\<newline>'']"
  have eq: "GenerateGeometryShaderCode e g api hc uid = ?A @ ?sides @ ?mid @ ?emit @ ?Z"
    using assms by (simp add: GenerateGeometryShaderCode_def gs_expand_def gs_tail_def)
  have "sublist ?sides (?A @ ?sides @ (?mid @ ?emit @ ?Z))"
    unfolding sublist_def by blast
  moreover have "sublist ?emit ((?A @ ?sides @ ?mid) @ ?emit @ ?Z)"
    unfolding sublist_def by blast
  ultimately show ?thesis
    unfolding eq by (simp only: append_assoc)
qed


lemma line_emit_opengl:
  "EmitVertex e hc uid ''l'' OpenGL wire pl True @ EmitVertex e hc uid ''r'' OpenGL wire pl False
     @ [TAB # ''}\<newline>'']
   = (if wire then [TAB # ''if (i == 0) first = l;\<newline>''] else [])
     @ [TAB # ''gl_Position = l.pos;\<newline>'']
     @ (if backend_depth_clamp hc then
          [TAB # ''gl_ClipDistance[0] = l.clipDist0;\<newline>'',
           TAB # ''gl_ClipDistance[1] = l.clipDist1;\<newline>'']
        else [])
     @ AssignVSOutputMembers e ''ps'' ''l'' (numTexGens uid) pl
     @ [TAB # ''EmitVertex();\<newline>'', TAB # ''gl_Position = r.pos;\<newline>'']
     @ (if backend_depth_clamp hc then
          [TAB # ''gl_ClipDistance[0] = r.clipDist0;\<newline>'',
           TAB # ''gl_ClipDistance[1] = r.clipDist1;\<newline>'']
        else [])
     @ AssignVSOutputMembers e ''ps'' ''r'' (numTexGens uid) pl
     @ [TAB # ''EmitVertex();\<newline>'', TAB # ''}\<newline>'']"
  by (simp add: EmitVertex_def)

lemma line_emit_vulkan:
  "EmitVertex e hc uid ''l'' Vulkan wire pl True @ EmitVertex e hc uid ''r'' Vulkan wire pl False
     @ [TAB # ''}\<newline>'']
   = (if wire then [TAB # ''if (i == 0) first = l;\<newline>''] else [])
     @ [TAB # ''gl_Position = l.pos;\<newline>'',
        TAB # ''gl_Position.y = -gl_Position.y;\<newline>'']
     @ AssignVSOutputMembers e ''ps'' ''l'' (numTexGens uid) pl
     @ [TAB # ''EmitVertex();\<newline>'', TAB # ''gl_Position = r.pos;\<newline>'',
        TAB # ''gl_Position.y = -gl_Position.y;\<newline>'']
     @ AssignVSOutputMembers e ''ps'' ''r'' (numTexGens uid) pl
     @ [TAB # ''EmitVertex();\<newline>'', TAB # ''}\<newline>'']"
  by (simp add: EmitVertex_def flip_line_def)

lemma line_emit_d3d:
  "EmitVertex e hc uid ''l'' D3D wire pl True @ EmitVertex e hc uid ''r'' D3D wire pl False
     @ [TAB # ''}\<newline>'']
   = (if wire then [TAB # ''if (i == 0) first = l;\<newline>''] else [])
     @ [TAB # ''ps.o = l;\<newline>'', TAB # ''output.Append(ps);\<newline>'',
        TAB # ''ps.o = r;\<newline>'', TAB # ''output.Append(ps);\<newline>'',
        TAB # ''}\<newline>'']"
  by (simp add: EmitVertex_def)

text \<open>
  C5 (as amended). For lines the generated shader chooses the offset by the test
  \<^verbatim>\<open>lineParam.y * to.y > lineParam.x * to.x\<close>, where \<^verbatim>\<open>to\<close> is the absolute
  difference of the end points after division by \<^verbatim>\<open>w\<close>: when the test holds (the line
  is more tall) the offset is the horizontal \<^verbatim>\<open>float2(lineParam.z / lineParam.x, 0)\<close>,
  otherwise the vertical \<^verbatim>\<open>float2(0, -lineParam.z / lineParam.y)\<close>. For each input
  vertex \<^verbatim>\<open>f\<close> it sets \<^verbatim>\<open>l\<close> to \<^verbatim>\<open>f\<close> moved by \<^verbatim>\<open>-offset * w\<close> and
  \<^verbatim>\<open>r\<close> to \<^verbatim>\<open>f\<close> moved by \<^verbatim>\<open>+offset * w\<close>, and emits \<^verbatim>\<open>l\<close>, then
  \<^verbatim>\<open>r\<close>, as the last statements of the loop over the input vertices.
\<close>

theorem line_offset_axis:
  assumes "primitive_type uid = Lines"
  shows "TAB # ''float2 offset;\<newline>''
       @ TAB # ''float2 to = abs(end.pos.xy / end.pos.w - start.pos.xy / start.pos.w);\<newline>''
       @ TAB # ''if ('' @ I_LINEPTPARAMS e @ ''.y * to.y > '' @ I_LINEPTPARAMS e
           @ ''.x * to.x) {\<newline>''
       @ TAB # TAB # ''offset = float2('' @ I_LINEPTPARAMS e @ ''.z / '' @ I_LINEPTPARAMS e
           @ ''.x, 0);\<newline>''
       @ TAB # ''} else {\<newline>''
       @ TAB # TAB # ''offset = float2(0, -'' @ I_LINEPTPARAMS e @ ''.z / '' @ I_LINEPTPARAMS e
           @ ''.y);\<newline>''
       @ TAB # ''}\<newline>''
     \<in> set (GenerateGeometryShaderCode e g api hc uid)
   \<and> sublist
       ([TAB # ''VS_OUTPUT l = f;\<newline>'' @ TAB # ''VS_OUTPUT r = f;\<newline>'',
         TAB # ''l.pos.xy -= offset * l.pos.w;\<newline>''
           @ TAB # ''r.pos.xy += offset * r.pos.w;\<newline>''])
       (GenerateGeometryShaderCode e g api hc uid)
   \<and> (api = OpenGL \<longrightarrow>
        sublist
          ((if wireframe hc then [TAB # ''if (i == 0) first = l;\<newline>''] else [])
           @ [TAB # ''gl_Position = l.pos;\<newline>'']
           @ (if backend_depth_clamp hc then
                [TAB # ''gl_ClipDistance[0] = l.clipDist0;\<newline>'',
                 TAB # ''gl_ClipDistance[1] = l.clipDist1;\<newline>'']
              else [])
           @ AssignVSOutputMembers e ''ps'' ''l'' (numTexGens uid)
               (bEnablePixelLighting (g_ActiveConfig g))
           @ [TAB # ''EmitVertex();\<newline>'', TAB # ''gl_Position = r.pos;\<newline>'']
           @ (if backend_depth_clamp hc then
                [TAB # ''gl_ClipDistance[0] = r.clipDist0;\<newline>'',
                 TAB # ''gl_ClipDistance[1] = r.clipDist1;\<newline>'']
              else [])
           @ AssignVSOutputMembers e ''ps'' ''r'' (numTexGens uid)
               (bEnablePixelLighting (g_ActiveConfig g))
           @ [TAB # ''EmitVertex();\<newline>'', TAB # ''}\<newline>''])
          (GenerateGeometryShaderCode e g api hc uid))
   \<and> (api = Vulkan \<longrightarrow>
        sublist
          ((if wireframe hc then [TAB # ''if (i == 0) first = l;\<newline>''] else [])
           @ [TAB # ''gl_Position = l.pos;\<newline>'',
              TAB # ''gl_Position.y = -gl_Position.y;\<newline>'']
           @ AssignVSOutputMembers e ''ps'' ''l'' (numTexGens uid)
               (bEnablePixelLighting (g_ActiveConfig g))
           @ [TAB # ''EmitVertex();\<newline>'', TAB # ''gl_Position = r.pos;\<newline>'',
              TAB # ''gl_Position.y = -gl_Position.y;\<newline>'']
           @ AssignVSOutputMembers e ''ps'' ''r'' (numTexGens uid)
               (bEnablePixelLighting (g_ActiveConfig g))
           @ [TAB # ''EmitVertex();\<newline>'', TAB # ''}\<newline>''])
          (GenerateGeometryShaderCode e g api hc uid))
   \<and> (api = D3D \<longrightarrow>
        sublist
          ((if wireframe hc then [TAB # ''if (i == 0) first = l;\<newline>''] else [])
           @ [TAB # ''ps.o = l;\<newline>'', TAB # ''output.Append(ps);\<newline>'',
              TAB # ''ps.o = r;\<newline>'', TAB # ''output.Append(ps);\<newline>'',
              TAB # ''}\<newline>''])
          (GenerateGeometryShaderCode e g api hc uid))"
proof -
  have chunk: "line_offset_chunk e
       (TAB # ''float2 to = abs(end.pos.xy / end.pos.w - start.pos.xy / start.pos.w);\<newline>'')
     \<in> set (GenerateGeometryShaderCode e g api hc uid)"
    by (rule line_offset_written [OF assms])
  have emits: "sublist
     (EmitVertex e hc uid ''l'' api (wireframe hc) (bEnablePixelLighting (g_ActiveConfig g)) True
      @ EmitVertex e hc uid ''r'' api (wireframe hc) (bEnablePixelLighting (g_ActiveConfig g)) False
      @ [TAB # ''}\<newline>''])
     (GenerateGeometryShaderCode e g api hc uid)"
    using line_sides_written [OF assms, of e g api hc] by blast
  have ogl: "api = OpenGL \<longrightarrow> sublist
          ((if wireframe hc then [TAB # ''if (i == 0) first = l;\<newline>''] else [])
           @ [TAB # ''gl_Position = l.pos;\<newline>'']
           @ (if backend_depth_clamp hc then
                [TAB # ''gl_ClipDistance[0] = l.clipDist0;\<newline>'',
                 TAB # ''gl_ClipDistance[1] = l.clipDist1;\<newline>'']
              else [])
           @ AssignVSOutputMembers e ''ps'' ''l'' (numTexGens uid)
               (bEnablePixelLighting (g_ActiveConfig g))
           @ [TAB # ''EmitVertex();\<newline>'', TAB # ''gl_Position = r.pos;\<newline>'']
           @ (if backend_depth_clamp hc then
                [TAB # ''gl_ClipDistance[0] = r.clipDist0;\<newline>'',
                 TAB # ''gl_ClipDistance[1] = r.clipDist1;\<newline>'']
              else [])
           @ AssignVSOutputMembers e ''ps'' ''r'' (numTexGens uid)
               (bEnablePixelLighting (g_ActiveConfig g))
           @ [TAB # ''EmitVertex();\<newline>'', TAB # ''}\<newline>''])
          (GenerateGeometryShaderCode e g api hc uid)"
    using emits by (auto simp only: line_emit_opengl)
  have vk: "api = Vulkan \<longrightarrow> sublist
          ((if wireframe hc then [TAB # ''if (i == 0) first = l;\<newline>''] else [])
           @ [TAB # ''gl_Position = l.pos;\<newline>'',
              TAB # ''gl_Position.y = -gl_Position.y;\<newline>'']
           @ AssignVSOutputMembers e ''ps'' ''l'' (numTexGens uid)
               (bEnablePixelLighting (g_ActiveConfig g))
           @ [TAB # ''EmitVertex();\<newline>'', TAB # ''gl_Position = r.pos;\<newline>'',
              TAB # ''gl_Position.y = -gl_Position.y;\<newline>'']
           @ AssignVSOutputMembers e ''ps'' ''r'' (numTexGens uid)
               (bEnablePixelLighting (g_ActiveConfig g))
           @ [TAB # ''EmitVertex();\<newline>'', TAB # ''}\<newline>''])
          (GenerateGeometryShaderCode e g api hc uid)"
    using emits by (auto simp only: line_emit_vulkan)
  have d3d: "api = D3D \<longrightarrow> sublist
          ((if wireframe hc then [TAB # ''if (i == 0) first = l;\<newline>''] else [])
           @ [TAB # ''ps.o = l;\<newline>'', TAB # ''output.Append(ps);\<newline>'',
              TAB # ''ps.o = r;\<newline>'', TAB # ''output.Append(ps);\<newline>'',
              TAB # ''}\<newline>''])
          (GenerateGeometryShaderCode e g api hc uid)"
    using emits by (auto simp only: line_emit_d3d)
  show ?thesis
    using chunk line_sides_written [OF assms, of e g api hc] ogl vk d3d
    unfolding line_offset_chunk_def
    by (simp only: append_Cons append_Nil append_assoc)
qed


theorem line_offset_axis_witness:
  "TAB # ''float2 offset;\<newline>''
       @ TAB # ''float2 to = abs(end.pos.xy / end.pos.w - start.pos.xy / start.pos.w);\<newline>''
       @ TAB # ''if (clinept.y * to.y > clinept.x * to.x) {\<newline>''
       @ TAB # TAB # ''offset = float2(clinept.z / clinept.x, 0);\<newline>''
       @ TAB # ''} else {\<newline>''
       @ TAB # TAB # ''offset = float2(0, -clinept.z / clinept.y);\<newline>''
       @ TAB # ''}\<newline>''
     \<in> set (GenerateGeometryShaderCode inline_emitters plain_ambient OpenGL mono_config
           \<lparr>numTexGens = 0, primitive_type = Lines\<rparr>)
   \<and> sublist
       [TAB # ''gl_Position = l.pos;\<newline>'',
        TAB # ''ps.pos = l.pos;\<newline>'', TAB # ''ps.colors_0 = l.colors_0;\<newline>'',
        TAB # ''EmitVertex();\<newline>'',
        TAB # ''gl_Position = r.pos;\<newline>'',
        TAB # ''ps.pos = r.pos;\<newline>'', TAB # ''ps.colors_0 = r.colors_0;\<newline>'',
        TAB # ''EmitVertex();\<newline>'', TAB # ''}\<newline>'']
       (GenerateGeometryShaderCode inline_emitters plain_ambient OpenGL mono_config
           \<lparr>numTexGens = 0, primitive_type = Lines\<rparr>)"
  using line_offset_axis [where uid = "\<lparr>numTexGens = 0, primitive_type = Lines\<rparr>"
      and e = inline_emitters and g = plain_ambient and api = OpenGL and hc = mono_config]
  by (simp add: inline_emitters_def plain_emitters_def mono_config_def)

lemma sublist_of_chunk:
  "w \<in> set out \<Longrightarrow> sublist x w \<Longrightarrow> sublist x (GetBuffer out)"
  using in_GetBuffer [of w out] sublist_order.order.trans [of x w "GetBuffer out"] by blast

text \<open>
  The unamended claim has the axes the other way round. In the generated text the branch
  taken when the test \<^verbatim>\<open>lineParam.y * to.y > lineParam.x * to.x\<close> holds, that is when
  the line is more tall, assigns the offset \<^verbatim>\<open>float2(lineParam.z / lineParam.x, 0)\<close>,
  whose vertical component is 0; the offset with the horizontal component 0 is assigned in
  the other branch, and nowhere in the text does an assignment of \<^verbatim>\<open>float2(0, ...)\<close>
  follow the test.
\<close>

theorem line_offset_axis_counterexample:
  "sublist
     (TAB # ''if (clinept.y * to.y > clinept.x * to.x) {\<newline>''
      @ TAB # TAB # ''offset = float2(clinept.z / clinept.x, 0);\<newline>''
      @ TAB # ''} else {\<newline>''
      @ TAB # TAB # ''offset = float2(0, -clinept.z / clinept.y);\<newline>''
      @ TAB # ''}\<newline>'')
     (GetBuffer (GenerateGeometryShaderCode plain_emitters plain_ambient D3D mono_config
        \<lparr>numTexGens = 0, primitive_type = Lines\<rparr>))
   \<and> \<not> sublist
     (TAB # ''if (clinept.y * to.y > clinept.x * to.x) {\<newline>''
      @ TAB # TAB # ''offset = float2(0, '')
     (GetBuffer (GenerateGeometryShaderCode plain_emitters plain_ambient D3D mono_config
        \<lparr>numTexGens = 0, primitive_type = Lines\<rparr>))"
proof
  show "sublist
     (TAB # ''if (clinept.y * to.y > clinept.x * to.x) {\<newline>''
      @ TAB # TAB # ''offset = float2(clinept.z / clinept.x, 0);\<newline>''
      @ TAB # ''} else {\<newline>''
      @ TAB # TAB # ''offset = float2(0, -clinept.z / clinept.y);\<newline>''
      @ TAB # ''}\<newline>'')
     (GetBuffer (GenerateGeometryShaderCode plain_emitters plain_ambient D3D mono_config
        \<lparr>numTexGens = 0, primitive_type = Lines\<rparr>))"
  proof (rule sublist_of_chunk)
    show "line_offset_chunk plain_emitters
         (TAB # ''float2 to = abs(end.pos.xy / end.pos.w - start.pos.xy / start.pos.w);\<newline>'')
       \<in> set (GenerateGeometryShaderCode plain_emitters plain_ambient D3D mono_config
          \<lparr>numTexGens = 0, primitive_type = Lines\<rparr>)"
      by (rule line_offset_written) simp
    have "suffix
       (TAB # ''if (clinept.y * to.y > clinept.x * to.x) {\<newline>''
        @ TAB # TAB # ''offset = float2(clinept.z / clinept.x, 0);\<newline>''
        @ TAB # ''} else {\<newline>''
        @ TAB # TAB # ''offset = float2(0, -clinept.z / clinept.y);\<newline>''
        @ TAB # ''}\<newline>'')
       (line_offset_chunk plain_emitters
         (TAB # ''float2 to = abs(end.pos.xy / end.pos.w - start.pos.xy / start.pos.w);\<newline>''))"
      unfolding suffix_def by (simp add: line_offset_chunk_def plain_emitters_def)
    then show "sublist
       (TAB # ''if (clinept.y * to.y > clinept.x * to.x) {\<newline>''
        @ TAB # TAB # ''offset = float2(clinept.z / clinept.x, 0);\<newline>''
        @ TAB # ''} else {\<newline>''
        @ TAB # TAB # ''offset = float2(0, -clinept.z / clinept.y);\<newline>''
        @ TAB # ''}\<newline>'')
       (line_offset_chunk plain_emitters
         (TAB # ''float2 to = abs(end.pos.xy / end.pos.w - start.pos.xy / start.pos.w);\<newline>''))"
      by (rule suffix_imp_sublist)
  qed
next
  show "\<not> sublist
     (TAB # ''if (clinept.y * to.y > clinept.x * to.x) {\<newline>''
      @ TAB # TAB # ''offset = float2(0, '')
     (GetBuffer (GenerateGeometryShaderCode plain_emitters plain_ambient D3D mono_config
        \<lparr>numTexGens = 0, primitive_type = Lines\<rparr>))"
    by (simp add: gs_all GetBuffer_def sublist_code)
qed

end
